theory Spec2Isabelle
  imports Complex_Main
begin

section \<open>numpy values\<close>

text \<open>
  The program computes with numpy's float64 arrays. A float64 number is a real number;
  the one non-number the program can produce without raising, NaN, is kept as a value of
  its own, since numpy only warns where it arises (\<open>np.sqrt\<close> of a negative number,
  \<open>0 / 0\<close>) and every later operation passes it on. A comparison with NaN is false.
  The operations of this section are the exact ones, without rounding and without
  overflow: they are what float64 computes on the operands they are applied to in the
  statements below (small integers, halves and quarters, and NaN). Division by zero
  gives NaN here; IEEE gives an infinity for a non-zero dividend, which this type does not
  hold. Where rounding can change what the program does, the arithmetic is an argument
  (section Rounded arithmetic).
\<close>

datatype npfloat = Fin real | NaN

instantiation npfloat :: "{plus, minus, uminus, times, inverse, ord}"
begin

fun plus_npfloat :: "npfloat \<Rightarrow> npfloat \<Rightarrow> npfloat" where
  "plus_npfloat (Fin a) (Fin b) = Fin (a + b)"
| "plus_npfloat _ _ = NaN"

fun minus_npfloat :: "npfloat \<Rightarrow> npfloat \<Rightarrow> npfloat" where
  "minus_npfloat (Fin a) (Fin b) = Fin (a - b)"
| "minus_npfloat _ _ = NaN"

fun uminus_npfloat :: "npfloat \<Rightarrow> npfloat" where
  "uminus_npfloat (Fin a) = Fin (- a)"
| "uminus_npfloat NaN = NaN"

fun times_npfloat :: "npfloat \<Rightarrow> npfloat \<Rightarrow> npfloat" where
  "times_npfloat (Fin a) (Fin b) = Fin (a * b)"
| "times_npfloat _ _ = NaN"

fun divide_npfloat :: "npfloat \<Rightarrow> npfloat \<Rightarrow> npfloat" where
  "divide_npfloat (Fin a) (Fin b) = (if b = 0 then NaN else Fin (a / b))"
| "divide_npfloat _ _ = NaN"

fun inverse_npfloat :: "npfloat \<Rightarrow> npfloat" where
  "inverse_npfloat (Fin a) = (if a = 0 then NaN else Fin (1 / a))"
| "inverse_npfloat NaN = NaN"

fun less_npfloat :: "npfloat \<Rightarrow> npfloat \<Rightarrow> bool" where
  "less_npfloat (Fin a) (Fin b) = (a < b)"
| "less_npfloat _ _ = False"

fun less_eq_npfloat :: "npfloat \<Rightarrow> npfloat \<Rightarrow> bool" where
  "less_eq_npfloat (Fin a) (Fin b) = (a \<le> b)"
| "less_eq_npfloat _ _ = False"

instance ..

end

text \<open>\<open>np.sqrt\<close>, \<open>np.abs\<close>, \<open>np.exp\<close> and \<open>x ** 2\<close> on one value.\<close>

fun np_sqrt :: "npfloat \<Rightarrow> npfloat" where
  "np_sqrt (Fin a) = (if a < 0 then NaN else Fin (sqrt a))"
| "np_sqrt NaN = NaN"

fun np_abs :: "npfloat \<Rightarrow> npfloat" where
  "np_abs (Fin a) = Fin \<bar>a\<bar>"
| "np_abs NaN = NaN"

fun np_exp :: "npfloat \<Rightarrow> npfloat" where
  "np_exp (Fin a) = Fin (exp a)"
| "np_exp NaN = NaN"

definition square :: "npfloat \<Rightarrow> npfloat" where
  "square x = x * x"

subsection \<open>Arrays\<close>

text \<open>
  A one-dimensional array is a list, a two-dimensional array the list of its rows. The
  element-wise operations below are those of numpy on operands of equal shape; on other
  shapes numpy broadcasts or raises ValueError, and the program never gets there: every
  vector of the learner has length \<open>n\<close> and every matrix is \<open>n \<times> n\<close> or has rows of
  length \<open>n\<close>. The one broadcast the program does perform, a matrix plus a vector, is
  \<open>mat_add_vec\<close>.
\<close>

type_synonym vector = "npfloat list"
type_synonym matrix = "npfloat list list"

definition scal_vec :: "npfloat \<Rightarrow> vector \<Rightarrow> vector" where
  \<comment> \<open>\<open>c * v\<close>, a scalar times an array\<close>
  "scal_vec c v = map (\<lambda>x. c * x) v"

definition vec_scal :: "vector \<Rightarrow> npfloat \<Rightarrow> vector" where
  \<comment> \<open>\<open>v * c\<close>\<close>
  "vec_scal v c = map (\<lambda>x. x * c) v"

definition vec_add :: "vector \<Rightarrow> vector \<Rightarrow> vector" where
  "vec_add u v = map2 (+) u v"

definition vec_sub :: "vector \<Rightarrow> vector \<Rightarrow> vector" where
  "vec_sub u v = map2 (-) u v"

definition vec_mul :: "vector \<Rightarrow> vector \<Rightarrow> vector" where
  \<comment> \<open>\<open>u * v\<close> on two one-dimensional arrays: the element-wise product\<close>
  "vec_mul u v = map2 (*) u v"

definition np_sum :: "vector \<Rightarrow> npfloat" where
  \<comment> \<open>the exact sum; \<open>np.sum\<close> returns it when every partial sum, in any order, is a
     float64 number, as for the differences 0 and 2 of two response vectors\<close>
  "np_sum v = foldl (+) (Fin 0) v"

definition norm_vec :: "vector \<Rightarrow> npfloat" where
  \<comment> \<open>\<open>np.linalg.norm\<close> of a one-dimensional array\<close>
  "norm_vec v = np_sqrt (np_sum (map square v))"

definition scal_mat :: "npfloat \<Rightarrow> matrix \<Rightarrow> matrix" where
  "scal_mat c M = map (scal_vec c) M"

definition mat_add :: "matrix \<Rightarrow> matrix \<Rightarrow> matrix" where
  "mat_add A B = map2 vec_add A B"

definition mat_add_vec :: "matrix \<Rightarrow> vector \<Rightarrow> matrix" where
  \<comment> \<open>numpy's broadcast of shape \<open>(n,)\<close> against \<open>(m, n)\<close>: the vector is added to every row\<close>
  "mat_add_vec A v = map (\<lambda>row. vec_add row v) A"

definition ncols :: "matrix \<Rightarrow> nat" where
  \<comment> \<open>\<open>np.shape(M)[1]\<close>; a matrix without rows has lost its column count in this model\<close>
  "ncols M = (case M of [] \<Rightarrow> 0 | row # _ \<Rightarrow> length row)"

definition transpose_mat :: "matrix \<Rightarrow> matrix" where
  "transpose_mat M = map (\<lambda>j. map (\<lambda>row. row ! j) M) [0..<ncols M]"

definition outer :: "vector \<Rightarrow> vector \<Rightarrow> matrix" where
  \<comment> \<open>\<open>u[:, np.newaxis] @ v[np.newaxis, :]\<close>, a column times a row\<close>
  "outer u v = map (\<lambda>x. map (\<lambda>y. x * y) v) u"

definition dot :: "vector \<Rightarrow> vector \<Rightarrow> npfloat" where
  "dot u v = np_sum (vec_mul u v)"

definition mat_vec :: "matrix \<Rightarrow> vector \<Rightarrow> vector" where
  \<comment> \<open>\<open>M @ v\<close>\<close>
  "mat_vec M v = map (\<lambda>row. dot row v) M"

definition mat_mul :: "matrix \<Rightarrow> matrix \<Rightarrow> matrix" where
  \<comment> \<open>\<open>A @ B\<close>\<close>
  "mat_mul A B = map (\<lambda>row. map (\<lambda>col. dot row col) (transpose_mat B)) A"

definition zeros :: "nat \<Rightarrow> vector" where
  "zeros m = replicate m (Fin 0)"

definition zeros2 :: "nat \<Rightarrow> nat \<Rightarrow> matrix" where
  "zeros2 r c = replicate r (zeros c)"

definition identity :: "nat \<Rightarrow> matrix" where
  \<comment> \<open>\<open>np.identity(m)\<close>\<close>
  "identity m = map (\<lambda>i. map (\<lambda>j. if i = j then Fin 1 else Fin 0) [0..<m]) [0..<m]"

section \<open>Errors\<close>

text \<open>The exceptions the modelled code can raise, each a value of the result type.\<close>

datatype error =
    AssertionError
  | ValueError
  | IndexError_too_many_indices
  | IndexError_out_of_bounds nat nat
  | LinAlgError

section \<open>The covariance update\<close>

text \<open>
  \<^verbatim>\<open>update_cm\<close> (becker.py, line 139):
  \<^verbatim>\<open>return (1 - c_1 - c_mu) * cov_matrix + c_1 * path_cm * path_cm.T + c_mu * cm_mu\<close>.
  \<open>path_cm\<close> is a one-dimensional array (\<open>np.zeros(self.n)\<close>, then sums of such), so
  \<open>path_cm.T\<close> is \<open>path_cm\<close> itself, \<open>c_1 * path_cm * path_cm.T\<close> is the element-wise
  product, again of shape \<open>(n,)\<close>, and the sum with the \<open>(n, n)\<close> matrix broadcasts it over
  the rows.
\<close>

definition update_cm :: "matrix \<Rightarrow> npfloat \<Rightarrow> npfloat \<Rightarrow> vector \<Rightarrow> matrix \<Rightarrow> matrix" where
  "update_cm cov_matrix c_1 c_mu path_cm cm_mu =
     mat_add
       (mat_add_vec (scal_mat (Fin 1 - c_1 - c_mu) cov_matrix)
                    (vec_mul (scal_vec c_1 path_cm) path_cm))
       (scal_mat c_mu cm_mu)"

text \<open>
  The update as the specification words it, with the rank-one outer product of the
  evolution path: \<open>C' = (1 - c_1 - c_mu) * C + c_1 * (path_cm \<otimes> path_cm) + c_mu * cm_mu\<close>.
\<close>

definition update_cm_spec :: "matrix \<Rightarrow> npfloat \<Rightarrow> npfloat \<Rightarrow> vector \<Rightarrow> matrix \<Rightarrow> matrix" where
  "update_cm_spec cov_matrix c_1 c_mu path_cm cm_mu =
     mat_add
       (mat_add (scal_mat (Fin 1 - c_1 - c_mu) cov_matrix)
                (scal_mat c_1 (outer path_cm path_cm)))
       (scal_mat c_mu cm_mu)"

section \<open>Fitness: predicted reliabilities and their correlation\<close>

text \<open>
  \<^verbatim>\<open>get_reliabilities\<close> (line 190): the array starts as zeros, and row \<open>i\<close>, for \<open>i\<close> below the
  number of epsilons, gets a 1 wherever \<open>|delay_diffs[i, :]| > |epsilons[i]|\<close>. Reading row
  \<open>i\<close> of an array with fewer rows raises IndexError.
\<close>

fun get_reliabilities_loop :: "matrix \<Rightarrow> vector \<Rightarrow> nat list \<Rightarrow> matrix \<Rightarrow> error + matrix" where
  "get_reliabilities_loop delay_diffs epsilons [] reliabilities = Inr reliabilities"
| "get_reliabilities_loop delay_diffs epsilons (i # is) reliabilities =
     (if i < length delay_diffs
      then get_reliabilities_loop delay_diffs epsilons is
             (reliabilities[i := map (\<lambda>d. if np_abs (epsilons ! i) < np_abs d then Fin 1 else Fin 0)
                                     (delay_diffs ! i)])
      else Inl (IndexError_out_of_bounds i (length delay_diffs)))"

definition get_reliabilities :: "matrix \<Rightarrow> vector \<Rightarrow> error + matrix" where
  "get_reliabilities delay_diffs epsilons =
     get_reliabilities_loop delay_diffs epsilons [0..<length epsilons]
       (map (\<lambda>row. zeros (length row)) delay_diffs)"

text \<open>
  \<open>np.any\<close> on a row: some entry is not zero (NaN counts as not zero).
\<close>

definition np_any :: "vector \<Rightarrow> bool" where
  "np_any v = list_ex (\<lambda>x. x \<noteq> Fin 0) v"

text \<open>
  \<open>np.corrcoef(x, y)[0, 1]\<close> for two one-dimensional arrays, as numpy computes it: the
  covariance matrix of the two rows with \<open>N - 1\<close> degrees of freedom (a count that is not
  positive is replaced by 0), then \<open>c[0, 1] / stddev[0] / stddev[1]\<close> with
  \<open>stddev = sqrt(diag(c))\<close>, clipped to \<open>[-1, 1]\<close>. numpy divides without raising: a
  row of variance zero has covariance zero with any other row, so the quotient is
  \<open>0 / 0\<close>, NaN. Arrays of different lengths cannot be stacked: ValueError.
\<close>

definition np_mean :: "vector \<Rightarrow> npfloat" where
  "np_mean v = np_sum v / Fin (real (length v))"

definition np_cov :: "vector \<Rightarrow> vector \<Rightarrow> npfloat" where
  "np_cov x y =
     (let fact = (if length x \<le> 1 then Fin 0 else Fin (real (length x) - 1));
          dx = map (\<lambda>a. a - np_mean x) x;
          dy = map (\<lambda>b. b - np_mean y) y
      in dot dx dy * (Fin 1 / fact))"

fun np_clip :: "npfloat \<Rightarrow> real \<Rightarrow> real \<Rightarrow> npfloat" where
  "np_clip (Fin a) lo hi = Fin (min (max a lo) hi)"
| "np_clip NaN lo hi = NaN"

definition corrcoef :: "vector \<Rightarrow> vector \<Rightarrow> error + npfloat" where
  "corrcoef x y =
     (if length x \<noteq> length y then Inl ValueError
      else Inr (np_clip (np_cov x y / np_sqrt (np_cov x x) / np_sqrt (np_cov y y)) (- 1) 1))"

text \<open>
  \<^verbatim>\<open>get_correlations\<close> (line 199): the correlation of every row that \<open>np.any\<close> accepts,
  and the initial 0 for the others.
\<close>

fun get_correlations :: "matrix \<Rightarrow> vector \<Rightarrow> error + vector" where
  "get_correlations [] measured_rels = Inr []"
| "get_correlations (row # reliabilities) measured_rels =
     (case (if np_any row then corrcoef row measured_rels else Inr (Fin 0)) of
        Inl e \<Rightarrow> Inl e
      | Inr c \<Rightarrow>
          (case get_correlations reliabilities measured_rels of
             Inl e \<Rightarrow> Inl e
           | Inr cs \<Rightarrow> Inr (c # cs)))"

section \<open>Polarity of the learned chains\<close>

text \<open>
  A challenge is a vector of bits, \<open>1\<close> or \<open>-1\<close>. The simulation of the target and the
  \<open>LTFArray\<close> class are not part of the modelled file: the functions that use them take
  their \<open>eval\<close> as an argument, and the batch that \<open>tools.sample_inputs\<close> draws as well.
\<close>

type_synonym challenge = "int list"

text \<open>
  \<open>responses[r, :] = v\<close> on an array of \<open>rows\<close> rows of \<open>challenge_num\<close> columns: IndexError
  when there is no row \<open>r\<close>; a value of one element is broadcast, any other length but
  \<open>challenge_num\<close> is a ValueError.
\<close>

definition store_row :: "matrix \<Rightarrow> nat \<Rightarrow> nat \<Rightarrow> vector \<Rightarrow> error + matrix" where
  "store_row responses challenge_num r v =
     (if length responses \<le> r then Inl (IndexError_out_of_bounds r (length responses))
      else if length v = challenge_num then Inr (responses[r := v])
      else if length v = 1 then Inr (responses[r := replicate challenge_num (hd v)])
      else Inl ValueError)"

text \<open>
  \<^verbatim>\<open>set_pole_of_LTFs\<close> (line 212). \<open>instance_eval\<close> is \<open>instance.eval\<close>, \<open>xor_eval W\<close> is
  \<open>LTFArray(W, LTFArray.transform_id, LTFArray.combiner_xor).eval\<close>, \<open>challenges\<close> the batch
  of 10 drawn by \<open>tools.sample_inputs(instance.n, 10)\<close>. \<open>np.empty\<close> leaves the array's
  content open; both rows are written before they are read, and the model starts them as
  zeros.
\<close>

definition set_pole_of_LTFs ::
  "(challenge list \<Rightarrow> vector) \<Rightarrow> (matrix \<Rightarrow> challenge list \<Rightarrow> vector) \<Rightarrow> challenge list \<Rightarrow>
   matrix \<Rightarrow> error + matrix" where
  "set_pole_of_LTFs instance_eval xor_eval challenges different_LTFs =
     (let challenge_num = 10;
          responses = zeros2 2 challenge_num
      in case store_row responses challenge_num 0 (instance_eval challenges) of
           Inl e \<Rightarrow> Inl e
         | Inr responses1 \<Rightarrow>
             (case store_row responses1 challenge_num 1 (xor_eval different_LTFs challenges) of
                Inl e \<Rightarrow> Inl e
              | Inr responses2 \<Rightarrow>
                  (let difference =
                         np_sum (map np_abs (vec_sub (responses2 ! 0) (responses2 ! 1)))
                   in if Fin (real challenge_num) < difference
                      then (case different_LTFs of
                              [] \<Rightarrow> Inl (IndexError_out_of_bounds 0 0)
                            | w # ws \<Rightarrow> Inr (vec_scal w (Fin (- 1)) # ws))
                      else Inr different_LTFs)))"

text \<open>The number of positions at which two response vectors differ.\<close>

definition disagreements :: "vector \<Rightarrow> vector \<Rightarrow> nat" where
  "disagreements r0 r1 = length (filter (\<lambda>(a, b). a \<noteq> b) (zip r0 r1))"

text \<open>A response vector: every entry is \<open>1\<close> or \<open>-1\<close>.\<close>

definition signed_responses :: "vector \<Rightarrow> bool" where
  "signed_responses r = list_all (\<lambda>x. x = Fin 1 \<or> x = Fin (- 1)) r"

section \<open>Rounded arithmetic\<close>

text \<open>
  Every arithmetic operation on float64 rounds its result, and \<open>np.sum\<close> and
  \<open>np.linalg.norm\<close> add in an order of numpy's own. Where a rounded result decides what the
  program does, in the assertions of the constructor and in the guard of
  \<^verbatim>\<open>cumulation_for_cm\<close>, the operations are arguments of the functions, gathered in one
  record, as \<open>np.linalg.eigh\<close> is an argument: \<open>f_add fl x y\<close> is \<open>x + y\<close> as float64
  computes it, and so on; \<open>f_pow\<close> is Python's \<open>**\<close> with an integer exponent, \<open>f_sum\<close>
  is \<open>np.sum\<close> of a one-dimensional array and \<open>f_norm\<close> its \<open>np.linalg.norm\<close>. An
  operation on arrays applies the operation to each entry. Comparisons of floats, the
  truncation \<open>int(x)\<close> and the conversion of the integers \<open>n\<close> and \<open>n**2\<close> to floats do
  not round.
\<close>

record float64_ops =
  f_add :: "npfloat \<Rightarrow> npfloat \<Rightarrow> npfloat"
  f_sub :: "npfloat \<Rightarrow> npfloat \<Rightarrow> npfloat"
  f_mul :: "npfloat \<Rightarrow> npfloat \<Rightarrow> npfloat"
  f_div :: "npfloat \<Rightarrow> npfloat \<Rightarrow> npfloat"
  f_pow :: "npfloat \<Rightarrow> nat \<Rightarrow> npfloat"
  f_sqrt :: "npfloat \<Rightarrow> npfloat"
  f_exp :: "npfloat \<Rightarrow> npfloat"
  f_sum :: "vector \<Rightarrow> npfloat"
  f_norm :: "vector \<Rightarrow> npfloat"

text \<open>
  The operations without rounding. float64 computes just these whenever the exact result
  is a float64 number; the examples below use them on such operands.
\<close>

fun np_power :: "npfloat \<Rightarrow> nat \<Rightarrow> npfloat" where
  "np_power (Fin a) k = Fin (a ^ k)"
| "np_power NaN k = NaN"

definition exact_arith :: float64_ops where
  "exact_arith =
     \<lparr> f_add = (+), f_sub = (-), f_mul = (*), f_div = (/), f_pow = np_power,
       f_sqrt = np_sqrt, f_exp = np_exp, f_sum = np_sum, f_norm = norm_vec \<rparr>"

section \<open>The learner and its constructor\<close>

text \<open>
  Of the simulation instance to be modelled the learner reads \<open>instance.n\<close>, the length of
  a challenge, and \<open>instance.k\<close>, the number of chains; both are natural numbers.
\<close>

record puf =
  puf_n :: nat
  puf_k :: nat

text \<open>The fields of \<^verbatim>\<open>Reliability_based_CMA_ES\<close>, in the order \<^verbatim>\<open>__init__\<close> sets them.\<close>

record learner =
  self_n :: nat
  self_different_LTFs :: matrix
  self_unreliability :: npfloat
  self_precision :: npfloat
  self_num_of_LTFs :: nat
  self_instance :: puf
  self_challenge_num :: nat
  self_repeat :: nat
  self_individuals :: matrix
  self_mean :: vector
  self_step_size :: npfloat
  self_pop_size :: int
  self_parent_size :: int
  self_priorities :: vector
  self_cov_matrix :: matrix
  self_path_cm :: vector
  self_path_ss :: vector
  self_mu_w :: npfloat
  self_c_mu :: npfloat
  self_d_sigma :: npfloat
  self_c_1 :: npfloat
  self_c_c :: npfloat
  self_c_sigma :: npfloat

text \<open>
  Python's \<open>int(x)\<close> on a float truncates towards zero and raises ValueError on NaN.
\<close>

fun np_int :: "npfloat \<Rightarrow> error + int" where
  "np_int (Fin a) = Inr (if 0 \<le> a then \<lfloor>a\<rfloor> else \<lceil>a\<rceil>)"
| "np_int NaN = Inl ValueError"

text \<open>
  The auxiliary constants of lines 35 to 40, for the dimension \<open>n = instance.n + 1\<close>:
  \<^verbatim>\<open>mu_w = 1 / np.sum(np.square(priorities))\<close>, \<^verbatim>\<open>c_mu = mu_w / n**2\<close>,
  \<^verbatim>\<open>d_sigma = 1 + np.sqrt(mu_w / n)\<close>, \<^verbatim>\<open>c_1 = 2 / n**2\<close>, \<^verbatim>\<open>c_c = 4 / n\<close>,
  \<^verbatim>\<open>c_sigma = 4 / n\<close>, each in the arithmetic \<open>fl\<close>. For priorities that are all zero
  numpy's \<open>mu_w\<close> is an infinity, which \<open>npfloat\<close> does not hold; the assertion on their
  sum then fails and the value is never used.
\<close>

definition mu_w_of :: "float64_ops \<Rightarrow> vector \<Rightarrow> npfloat" where
  "mu_w_of fl priorities = f_div fl (Fin 1) (f_sum fl (map (\<lambda>x. f_mul fl x x) priorities))"

definition c_mu_of :: "float64_ops \<Rightarrow> nat \<Rightarrow> vector \<Rightarrow> npfloat" where
  "c_mu_of fl n priorities = f_div fl (mu_w_of fl priorities) (Fin (real (n ^ 2)))"

definition d_sigma_of :: "float64_ops \<Rightarrow> nat \<Rightarrow> vector \<Rightarrow> npfloat" where
  "d_sigma_of fl n priorities =
     f_add fl (Fin 1) (f_sqrt fl (f_div fl (mu_w_of fl priorities) (Fin (real n))))"

definition c_1_of :: "float64_ops \<Rightarrow> nat \<Rightarrow> npfloat" where
  "c_1_of fl n = f_div fl (Fin 2) (Fin (real (n ^ 2)))"

definition c_c_of :: "float64_ops \<Rightarrow> nat \<Rightarrow> npfloat" where
  "c_c_of fl n = f_div fl (Fin 4) (Fin (real n))"

definition c_sigma_of :: "float64_ops \<Rightarrow> nat \<Rightarrow> npfloat" where
  "c_sigma_of fl n = f_div fl (Fin 4) (Fin (real n))"

text \<open>
  \<^verbatim>\<open>__init__\<close> (line 13). \<open>np.zeros((pop_size, self.n))\<close> raises ValueError for a negative
  \<open>pop_size\<close>; the three assertions stand at the end, after every field is set. The second
  truncates the float64 sum \<open>np.ndarray.sum(priorities)\<close>, here \<open>f_sum fl priorities\<close>.
  Nothing compares \<open>parent_size\<close> with \<open>pop_size\<close>, and nothing tests either for zero.
\<close>

definition init ::
  "float64_ops \<Rightarrow> puf \<Rightarrow> int \<Rightarrow> int \<Rightarrow> vector \<Rightarrow> nat \<Rightarrow> nat \<Rightarrow> npfloat \<Rightarrow> npfloat \<Rightarrow>
   error + learner" where
  "init fl inst pop_size parent_size priorities challenge_num repeat unreliability precision =
     (let n = puf_n inst + 1 in
      if pop_size < 0 then Inl ValueError
      else if int (length priorities) \<noteq> parent_size then Inl AssertionError
      else case np_int (f_sum fl priorities) of
             Inl e \<Rightarrow> Inl e
           | Inr s \<Rightarrow>
               if s \<noteq> 1 then Inl AssertionError
               else if \<not> (f_add fl (c_1_of fl n) (c_mu_of fl n priorities) \<le> Fin 1)
               then Inl AssertionError
               else Inr \<lparr>
                 self_n = n,
                 self_different_LTFs = zeros2 (puf_k inst) n,
                 self_unreliability = unreliability,
                 self_precision = precision,
                 self_num_of_LTFs = 0,
                 self_instance = inst,
                 self_challenge_num = challenge_num,
                 self_repeat = repeat,
                 self_individuals = zeros2 (nat pop_size) n,
                 self_mean = zeros n,
                 self_step_size = Fin 1,
                 self_pop_size = pop_size,
                 self_parent_size = parent_size,
                 self_priorities = priorities,
                 self_cov_matrix = identity n,
                 self_path_cm = zeros n,
                 self_path_ss = zeros n,
                 self_mu_w = mu_w_of fl priorities,
                 self_c_mu = c_mu_of fl n priorities,
                 self_d_sigma = d_sigma_of fl n priorities,
                 self_c_1 = c_1_of fl n,
                 self_c_c = c_c_of fl n,
                 self_c_sigma = c_sigma_of fl n \<rparr>)"

section \<open>Comparing a new chain with the accepted ones\<close>

text \<open>
  An array argument whose number of dimensions the code does not fix: \<open>learn_LTF\<close> returns
  a row of the population, \<open>self.individuals[i, :]\<close>, which is one-dimensional.
\<close>

datatype ndarray = Array1 vector | Array2 matrix

text \<open>
  \<^verbatim>\<open>is_correlated\<close> (line 227): row 0 against each later row; \<open>differences\<close> is half the
  sum of the absolute differences.
\<close>

fun is_correlated_loop :: "matrix \<Rightarrow> nat \<Rightarrow> nat list \<Rightarrow> bool" where
  "is_correlated_loop responses challenge_num [] = False"
| "is_correlated_loop responses challenge_num (i # is) =
     (let differences = np_sum (map np_abs (vec_sub (responses ! 0) (responses ! i))) / Fin 2
      in if differences < Fin (25/100) * Fin (real challenge_num)
            \<or> Fin (75/100) * Fin (real challenge_num) < differences
         then True
         else is_correlated_loop responses challenge_num is)"

definition is_correlated :: "matrix \<Rightarrow> bool" where
  "is_correlated responses =
     is_correlated_loop responses (ncols responses) [1..<length responses]"

text \<open>
  \<^verbatim>\<open>build_LTFArrays\<close> (line 174) yields one \<open>LTFArray\<close> for every row, built from the
  one-row weight array \<open>individuals[i, np.newaxis, :]\<close> with the ATF transform, the XOR
  combiner and no bias. An \<open>LTFArray\<close> is represented by its weight array; what its
  \<open>eval\<close> returns is the argument \<open>ltf_eval\<close> of the functions that call it.
\<close>

definition build_LTFArrays :: "matrix \<Rightarrow> matrix list" where
  "build_LTFArrays individuals = map (\<lambda>row. [row]) individuals"

text \<open>
  The loop of \<^verbatim>\<open>is_different_LTF\<close> (line 66):
  \<^verbatim>\<open>for i, current_LTF in enumerate(different_LTFs): responses[i+1, :] = current_LTF.eval(challenges)\<close>.
\<close>

fun is_different_LTF_loop ::
  "(matrix \<Rightarrow> challenge list \<Rightarrow> vector) \<Rightarrow> challenge list \<Rightarrow> nat \<Rightarrow> (nat \<times> matrix) list \<Rightarrow>
   matrix \<Rightarrow> error + matrix" where
  "is_different_LTF_loop ltf_eval challenges challenge_num [] responses = Inr responses"
| "is_different_LTF_loop ltf_eval challenges challenge_num ((i, current_LTF) # rest) responses =
     (case store_row responses challenge_num (i + 1) (ltf_eval current_LTF challenges) of
        Inl e \<Rightarrow> Inl e
      | Inr responses' \<Rightarrow>
          is_different_LTF_loop ltf_eval challenges challenge_num rest responses')"

text \<open>
  \<^verbatim>\<open>is_different_LTF\<close> (line 56). \<open>new_LTF[:, :-1]\<close> indexes two dimensions and raises
  IndexError on a one-dimensional array. \<open>challenges\<close> is the batch drawn by
  \<open>tools.sample_inputs(self.instance.n, self.challenge_num)\<close>. The buffer \<open>responses\<close> has
  \<open>self.num_of_LTFs\<close> rows (\<open>np.empty\<close>, here zeros: no entry is read before it is
  written).
\<close>

definition is_different_LTF ::
  "(matrix \<Rightarrow> challenge list \<Rightarrow> vector) \<Rightarrow> learner \<Rightarrow> ndarray \<Rightarrow> challenge list \<Rightarrow> error + bool" where
  "is_different_LTF ltf_eval self new_LTF challenges =
     (if self_num_of_LTFs self = 0 then Inr True
      else
        let weight_arrays = take (self_num_of_LTFs self) (self_different_LTFs self)
        in case new_LTF of
             Array1 v \<Rightarrow> Inl IndexError_too_many_indices
           | Array2 M \<Rightarrow>
               (let new_LTFArray = map butlast M;
                    different_LTFs = build_LTFArrays (map butlast weight_arrays);
                    responses = zeros2 (self_num_of_LTFs self) (self_challenge_num self)
                in case store_row responses (self_challenge_num self) 0
                          (ltf_eval new_LTFArray challenges) of
                     Inl e \<Rightarrow> Inl e
                   | Inr responses1 \<Rightarrow>
                       (case is_different_LTF_loop ltf_eval challenges (self_challenge_num self)
                               (enumerate 0 different_LTFs) responses1 of
                          Inl e \<Rightarrow> Inl e
                        | Inr responses2 \<Rightarrow> Inr (\<not> is_correlated responses2))))"

section \<open>One generation of the search\<close>

text \<open>
  \<open>np.shape(M)[1]\<close>. A list of rows holds no column count when it is empty; the count
  \<open>n\<close> of the array is given for that case.
\<close>

definition shape1 :: "nat \<Rightarrow> matrix \<Rightarrow> nat" where
  "shape1 n M = (case M of [] \<Rightarrow> n | row # _ \<Rightarrow> length row)"

text \<open>
  \<^verbatim>\<open>get_parent\<close> (line 245) and \<^verbatim>\<open>get_cm_mu\<close> (line 253): the sums over
  \<open>range(parent_size)\<close> of \<open>priorities[i] * sorted_individuals[i, :]\<close> and of
  \<open>priorities[i] * column @ row\<close>, in the arithmetic \<open>fl\<close>; an index past the priorities
  or past the individuals raises IndexError. The population has \<open>n\<close> columns.
\<close>

fun get_parent_loop ::
  "float64_ops \<Rightarrow> matrix \<Rightarrow> vector \<Rightarrow> nat list \<Rightarrow> vector \<Rightarrow> error + vector" where
  "get_parent_loop fl sorted_individuals priorities [] parent = Inr parent"
| "get_parent_loop fl sorted_individuals priorities (i # is) parent =
     (if length priorities \<le> i then Inl (IndexError_out_of_bounds i (length priorities))
      else if length sorted_individuals \<le> i
      then Inl (IndexError_out_of_bounds i (length sorted_individuals))
      else get_parent_loop fl sorted_individuals priorities is
             (map2 (f_add fl) parent
                (map (f_mul fl (priorities ! i)) (sorted_individuals ! i))))"

definition get_parent :: "float64_ops \<Rightarrow> nat \<Rightarrow> matrix \<Rightarrow> int \<Rightarrow> vector \<Rightarrow> error + vector" where
  "get_parent fl n sorted_individuals parent_size priorities =
     get_parent_loop fl sorted_individuals priorities [0..<nat parent_size]
       (zeros (shape1 n sorted_individuals))"

fun get_cm_mu_loop ::
  "float64_ops \<Rightarrow> matrix \<Rightarrow> vector \<Rightarrow> nat list \<Rightarrow> matrix \<Rightarrow> error + matrix" where
  "get_cm_mu_loop fl sorted_individuals priorities [] cm_mu = Inr cm_mu"
| "get_cm_mu_loop fl sorted_individuals priorities (i # is) cm_mu =
     (if length priorities \<le> i then Inl (IndexError_out_of_bounds i (length priorities))
      else if length sorted_individuals \<le> i
      then Inl (IndexError_out_of_bounds i (length sorted_individuals))
      else get_cm_mu_loop fl sorted_individuals priorities is
             (map2 (map2 (f_add fl)) cm_mu
                (map (\<lambda>x. map (\<lambda>y. f_mul fl x y) (sorted_individuals ! i))
                   (map (f_mul fl (priorities ! i)) (sorted_individuals ! i)))))"

definition get_cm_mu :: "float64_ops \<Rightarrow> nat \<Rightarrow> matrix \<Rightarrow> int \<Rightarrow> vector \<Rightarrow> error + matrix" where
  "get_cm_mu fl n sorted_individuals parent_size priorities =
     get_cm_mu_loop fl sorted_individuals priorities [0..<nat parent_size]
       (zeros2 (shape1 n sorted_individuals) (shape1 n sorted_individuals))"

text \<open>\<^verbatim>\<open>update_mean\<close> (line 120): \<open>mean + step_size*parent\<close>.\<close>

definition update_mean :: "float64_ops \<Rightarrow> vector \<Rightarrow> npfloat \<Rightarrow> vector \<Rightarrow> vector" where
  "update_mean fl mean step_size parent =
     map2 (f_add fl) mean (map (f_mul fl step_size) parent)"

text \<open>
  \<^verbatim>\<open>cumulation_for_cm\<close> (line 125):
  \<^verbatim>\<open>path_cm = path_cm * (1-c_c)\<close>, then, if \<open>np.linalg.norm(path_ss) < 1.5 * np.sqrt(n)\<close>,
  \<^verbatim>\<open>path_cm = path_cm + (np.sqrt(1 - (1-c_c)**2) * np.sqrt(mu_w) * parent)\<close>. The norm,
  the bound and the comparison are those of float64.
\<close>

definition cumulation_for_cm ::
  "float64_ops \<Rightarrow> vector \<Rightarrow> npfloat \<Rightarrow> vector \<Rightarrow> nat \<Rightarrow> npfloat \<Rightarrow> vector \<Rightarrow> vector" where
  "cumulation_for_cm fl path_cm c_c path_ss n mu_w parent =
     (let path_cm1 = map (\<lambda>x. f_mul fl x (f_sub fl (Fin 1) c_c)) path_cm
      in if f_norm fl path_ss < f_mul fl (Fin (15/10)) (f_sqrt fl (Fin (real n)))
         then map2 (f_add fl) path_cm1
                (map (f_mul fl
                        (f_mul fl
                           (f_sqrt fl (f_sub fl (Fin 1) (f_pow fl (f_sub fl (Fin 1) c_c) 2)))
                           (f_sqrt fl mu_w)))
                   parent)
         else path_cm1)"

text \<open>
  \<^verbatim>\<open>modify_eigen_decomposition\<close> (line 261). \<open>np.linalg.eigh\<close> is an argument: it returns
  the eigenvalues and the matrix of eigenvectors, or raises when the iteration does not
  converge. \<open>np.diag\<close> builds the diagonal matrix, \<open>np.sqrt\<close> is taken entry by entry
  (NaN for a negative eigenvalue, with a warning only), and \<open>np.linalg.inv\<close> raises
  LinAlgError for a singular matrix. \<open>linalg_inv\<close> is \<open>np.linalg.inv\<close> on the diagonal
  matrices it is given here: singular when an entry of the diagonal is zero, else the
  diagonal matrix of the reciprocals, a NaN entry giving NaN.
\<close>

definition np_diag :: "vector \<Rightarrow> matrix" where
  "np_diag v =
     map (\<lambda>i. map (\<lambda>j. if i = j then v ! i else Fin 0) [0..<length v]) [0..<length v]"

definition diagonal_of :: "matrix \<Rightarrow> vector" where
  "diagonal_of M = map (\<lambda>i. M ! i ! i) [0..<length M]"

definition linalg_inv :: "matrix \<Rightarrow> error + matrix" where
  "linalg_inv M =
     (if list_ex (\<lambda>x. x = Fin 0) (diagonal_of M) then Inl LinAlgError
      else Inr (np_diag (map inverse (diagonal_of M))))"

definition modify_eigen_decomposition ::
  "(matrix \<Rightarrow> error + vector \<times> matrix) \<Rightarrow> matrix \<Rightarrow> error + matrix" where
  "modify_eigen_decomposition eigh M =
     (case eigh M of
        Inl e \<Rightarrow> Inl e
      | Inr (eigen_values, eigen_vectors) \<Rightarrow>
          (let diagonal = map (map np_sqrt) (np_diag eigen_values)
           in case linalg_inv diagonal of
                Inl e \<Rightarrow> Inl e
              | Inr diagonal_inverse \<Rightarrow>
                  Inr (mat_mul (mat_mul eigen_vectors diagonal_inverse)
                         (transpose_mat eigen_vectors))))"

text \<open>
  \<^verbatim>\<open>cumulation_for_ss\<close> (line 133):
  \<^verbatim>\<open>(1-c_sigma) * path_ss + np.sqrt(1 - (1-c_sigma)**2) * np.sqrt(mu_w) * cm_eigen_dec @ parent\<close>;
  \<open>*\<close> and \<open>@\<close> bind alike and to the left, so the scalar multiplies the matrix first.
\<close>

definition cumulation_for_ss ::
  "(matrix \<Rightarrow> error + vector \<times> matrix) \<Rightarrow> vector \<Rightarrow> npfloat \<Rightarrow> npfloat \<Rightarrow> matrix \<Rightarrow> vector \<Rightarrow>
   error + vector" where
  "cumulation_for_ss eigh path_ss c_sigma mu_w cov_matrix parent =
     (case modify_eigen_decomposition eigh cov_matrix of
        Inl e \<Rightarrow> Inl e
      | Inr cm_eigen_dec \<Rightarrow>
          Inr (vec_add (scal_vec (Fin 1 - c_sigma) path_ss)
                 (mat_vec
                    (scal_mat (np_sqrt (Fin 1 - square (Fin 1 - c_sigma)) * np_sqrt mu_w)
                       cm_eigen_dec)
                    parent)))"

text \<open>
  \<^verbatim>\<open>update_ss\<close> (line 144):
  \<^verbatim>\<open>step_size * np.exp((c_sigma / d_sigma) * ((np.linalg.norm(path_ss) / np.sqrt(np.shape(path_ss)[0])) - 1))\<close>.
\<close>

definition update_ss :: "float64_ops \<Rightarrow> npfloat \<Rightarrow> npfloat \<Rightarrow> npfloat \<Rightarrow> vector \<Rightarrow> npfloat" where
  "update_ss fl step_size c_sigma d_sigma path_ss =
     f_mul fl step_size
       (f_exp fl
          (f_mul fl (f_div fl c_sigma d_sigma)
             (f_sub fl
                (f_div fl (f_norm fl path_ss) (f_sqrt fl (Fin (real (length path_ss)))))
                (Fin 1))))"

text \<open>
  The update of the distribution in \<^verbatim>\<open>learn_LTF\<close>, lines 93 to 106, for the individuals
  of one generation sorted by fitness. Each assignment to a field of \<open>self\<close> is one record
  update, in the order of the source, and each call reads the fields as they are at that
  moment. The population has \<open>self.n\<close> columns (\<^verbatim>\<open>reproduce\<close> adds the mean, of length
  \<open>self.n\<close>, to every row). \<^verbatim>\<open>cumulation_for_ss\<close> and \<^verbatim>\<open>update_cm\<close> are the functions of
  the sections above; whether the former raises depends on the eigenvalues alone, an
  eigenvalue and its float64 square root being zero together.
\<close>

definition learn_LTF_update ::
  "float64_ops \<Rightarrow> (matrix \<Rightarrow> error + vector \<times> matrix) \<Rightarrow> learner \<Rightarrow> matrix \<Rightarrow> error + learner" where
  "learn_LTF_update fl eigh self sorted_individuals =
     (case get_parent fl (self_n self) sorted_individuals (self_parent_size self)
             (self_priorities self) of
        Inl e \<Rightarrow> Inl e
      | Inr parent \<Rightarrow>
     (case get_cm_mu fl (self_n self) sorted_individuals (self_parent_size self)
             (self_priorities self) of
        Inl e \<Rightarrow> Inl e
      | Inr cm_mu \<Rightarrow>
     (let self1 = self\<lparr>self_mean :=
                    update_mean fl (self_mean self) (self_step_size self) parent\<rparr>;
          self2 = self1\<lparr>self_path_cm :=
                    cumulation_for_cm fl (self_path_cm self1) (self_c_c self1)
                      (self_path_ss self1) (self_n self1) (self_mu_w self1) parent\<rparr>
      in case cumulation_for_ss eigh (self_path_ss self2) (self_c_sigma self2) (self_mu_w self2)
                (self_cov_matrix self2) parent of
           Inl e \<Rightarrow> Inl e
         | Inr path_ss \<Rightarrow>
             (let self3 = self2\<lparr>self_path_ss := path_ss\<rparr>;
                  self4 = self3\<lparr>self_cov_matrix :=
                            update_cm (self_cov_matrix self3) (self_c_1 self3) (self_c_mu self3)
                              (self_path_cm self3) cm_mu\<rparr>;
                  self5 = self4\<lparr>self_step_size :=
                            update_ss fl (self_step_size self4) (self_c_sigma self4)
                              (self_d_sigma self4) (self_path_ss self4)\<rparr>
              in Inr self5))))"

section \<open>Example learners\<close>

text \<open>
  The learner for a target of challenge length 1 with two chains, population size 4 and
  the single priority 1, as the constructor sets it up, after its first chain
  \<open>[1, 1/2]\<close> has been accepted.
\<close>

abbreviation learner_with_one_chain :: learner where
  "learner_with_one_chain \<equiv>
     \<lparr> self_n = 2,
       self_different_LTFs = [[Fin 1, Fin (1/2)], [Fin 0, Fin 0]],
       self_unreliability = Fin 0,
       self_precision = Fin (9/10),
       self_num_of_LTFs = 1,
       self_instance = \<lparr>puf_n = 1, puf_k = 2\<rparr>,
       self_challenge_num = 4,
       self_repeat = 5,
       self_individuals = [[Fin 0, Fin 0], [Fin 0, Fin 0], [Fin 0, Fin 0], [Fin 0, Fin 0]],
       self_mean = [Fin 0, Fin 0],
       self_step_size = Fin 1,
       self_pop_size = 4,
       self_parent_size = 1,
       self_priorities = [Fin 1],
       self_cov_matrix = [[Fin 1, Fin 0], [Fin 0, Fin 1]],
       self_path_cm = [Fin 0, Fin 0],
       self_path_ss = [Fin 0, Fin 0],
       self_mu_w = Fin 1,
       self_c_mu = Fin (1/4),
       self_d_sigma = Fin (1 + sqrt (1/2)),
       self_c_1 = Fin (1/2),
       self_c_c = Fin 2,
       self_c_sigma = Fin 2 \<rparr>"

text \<open>
  A learner for a target of challenge length 3 with population size 2 and the single
  priority 1, in the course of a search: the constants are those of the constructor
  (\<open>c_c = 4/4\<close>, \<open>mu_w = 1\<close>), the mean and the two evolution paths have moved.
\<close>

abbreviation learner_in_search :: learner where
  "learner_in_search \<equiv>
     \<lparr> self_n = 4,
       self_different_LTFs = [[Fin 0, Fin 0, Fin 0, Fin 0]],
       self_unreliability = Fin 0,
       self_precision = Fin (9/10),
       self_num_of_LTFs = 0,
       self_instance = \<lparr>puf_n = 3, puf_k = 1\<rparr>,
       self_challenge_num = 4,
       self_repeat = 5,
       self_individuals = [[Fin 1, Fin 2, Fin 3, Fin 4], [Fin 0, Fin 1, Fin 0, Fin 1]],
       self_mean = [Fin 1, Fin 1, Fin 0, Fin 0],
       self_step_size = Fin 1,
       self_pop_size = 2,
       self_parent_size = 1,
       self_priorities = [Fin 1],
       self_cov_matrix =
         [[Fin 1, Fin 0, Fin 0, Fin 0], [Fin 0, Fin 1, Fin 0, Fin 0],
          [Fin 0, Fin 0, Fin 1, Fin 0], [Fin 0, Fin 0, Fin 0, Fin 1]],
       self_path_cm = [Fin 5, Fin 6, Fin 7, Fin 8],
       self_path_ss = [Fin 1, Fin 0, Fin 0, Fin 0],
       self_mu_w = Fin 1,
       self_c_mu = Fin (1/16),
       self_d_sigma = Fin (3/2),
       self_c_1 = Fin (1/8),
       self_c_c = Fin 1,
       self_c_sigma = Fin 1 \<rparr>"

section \<open>Properties\<close>

lemmas array_defs =
  scal_vec_def vec_scal_def vec_add_def vec_sub_def vec_mul_def scal_mat_def mat_add_def
  mat_add_vec_def outer_def zeros_def zeros2_def identity_def ncols_def transpose_mat_def

text \<open>
  C1 (the covariance update returns
  \<open>(1 - c_1 - c_mu) * C + c_1 * (path_cm \<otimes> path_cm) + c_mu * cm_mu\<close> with the rank-one outer
  product of the evolution path): the code does not. At \<open>C\<close> the 2 by 2 identity,
  \<open>c_1 = 1/2\<close>, \<open>c_mu = 0\<close>, \<open>path_cm = [1, 2]\<close> and \<open>cm_mu = 0\<close> it returns
  \<open>[[1, 2], [1/2, 5/2]]\<close>, the squared path added to every row, where the outer product
  gives \<open>[[1, 1], [1, 5/2]]\<close>.
\<close>

theorem update_cm_broadcasts_squares:
  "update_cm [[Fin 1, Fin 0], [Fin 0, Fin 1]] (Fin (1/2)) (Fin 0) [Fin 1, Fin 2]
       [[Fin 0, Fin 0], [Fin 0, Fin 0]]
     = [[Fin 1, Fin 2], [Fin (1/2), Fin (5/2)]]
   \<and> update_cm_spec [[Fin 1, Fin 0], [Fin 0, Fin 1]] (Fin (1/2)) (Fin 0) [Fin 1, Fin 2]
       [[Fin 0, Fin 0], [Fin 0, Fin 0]]
     = [[Fin 1, Fin 1], [Fin 1, Fin (5/2)]]"
  by (simp add: update_cm_def update_cm_spec_def array_defs)

text \<open>
  C2 (the covariance update returns a symmetric matrix for a symmetric covariance matrix
  and a symmetric \<open>cm_mu\<close>): the code does not. The identity and the zero matrix are
  symmetric, and the matrix returned for them with \<open>path_cm = [1, 2]\<close> differs from its
  transpose.
\<close>

theorem update_cm_loses_symmetry:
  "transpose_mat [[Fin 1, Fin 0], [Fin 0, Fin 1]] = [[Fin 1, Fin 0], [Fin 0, Fin 1]]
   \<and> transpose_mat [[Fin 0, Fin 0], [Fin 0, Fin 0]] = [[Fin 0, Fin 0], [Fin 0, Fin 0]]
   \<and> transpose_mat
        (update_cm [[Fin 1, Fin 0], [Fin 0, Fin 1]] (Fin (1/2)) (Fin 0) [Fin 1, Fin 2]
           [[Fin 0, Fin 0], [Fin 0, Fin 0]])
     \<noteq> update_cm [[Fin 1, Fin 0], [Fin 0, Fin 1]] (Fin (1/2)) (Fin 0) [Fin 1, Fin 2]
           [[Fin 0, Fin 0], [Fin 0, Fin 0]]"
  by (simp add: update_cm_def array_defs upt_rec)

text \<open>
  C6 (the fitness is the Pearson correlation, in \<open>[-1, 1]\<close>, for a predicted signature that
  is not constant, and exactly 0 for a constant one, all zeros or all ones): the guard of
  \<^verbatim>\<open>get_correlations\<close> is \<open>np.any\<close>, which lets the all-ones row through; its variance is
  zero and \<open>np.corrcoef\<close> returns NaN for it, not 0.
\<close>

theorem get_correlations_all_ones_nan:
  "get_correlations [[Fin 1, Fin 1, Fin 1]] [Fin (1/5), Fin (3/5), Fin 1] = Inr [NaN]"
  by (simp add: np_any_def corrcoef_def np_cov_def np_mean_def dot_def np_sum_def vec_mul_def)

subsection \<open>Polarity\<close>

lemma vec_scal_minus_one: "vec_scal w (Fin (- 1)) = map uminus w"
  unfolding vec_scal_def
proof (rule map_cong[OF refl])
  fix x show "x * Fin (- 1) = - x" by (cases x) simp_all
qed

lemma abs_diff_signed:
  assumes "a = Fin 1 \<or> a = Fin (- 1)" "b = Fin 1 \<or> b = Fin (- 1)"
  shows "np_abs (a - b) = Fin (if a \<noteq> b then 2 else 0)"
  using assms by auto

lemma foldl_abs_diff_signed:
  "signed_responses r0 \<Longrightarrow> signed_responses r1 \<Longrightarrow>
   foldl (+) (Fin a) (map np_abs (map2 (-) r0 r1)) = Fin (a + 2 * real (disagreements r0 r1))"
proof (induction r0 arbitrary: r1 a)
  case Nil
  then show ?case by (simp add: disagreements_def)
next
  case (Cons x xs)
  show ?case
  proof (cases r1)
    case Nil
    then show ?thesis by (simp add: disagreements_def)
  next
    case (Cons y ys)
    from Cons.prems Cons have sx: "x = Fin 1 \<or> x = Fin (- 1)" and sy: "y = Fin 1 \<or> y = Fin (- 1)"
      and sxs: "signed_responses xs" and sys: "signed_responses ys"
      by (simp_all add: signed_responses_def)
    have step: "Fin a + np_abs (x - y) = Fin (a + (if x \<noteq> y then 2 else 0))"
      using abs_diff_signed[OF sx sy] by simp
    have "foldl (+) (Fin a) (map np_abs (map2 (-) (x # xs) (y # ys)))
          = foldl (+) (Fin (a + (if x \<noteq> y then 2 else 0))) (map np_abs (map2 (-) xs ys))"
      using step by simp
    also have "\<dots> = Fin (a + (if x \<noteq> y then 2 else 0) + 2 * real (disagreements xs ys))"
      by (rule Cons.IH[OF sxs sys])
    also have "\<dots> = Fin (a + 2 * real (disagreements (x # xs) (y # ys)))"
      by (simp add: disagreements_def)
    finally show ?thesis using Cons by simp
  qed
qed

lemma difference_is_twice_disagreements:
  "signed_responses r0 \<Longrightarrow> signed_responses r1 \<Longrightarrow>
   np_sum (map np_abs (vec_sub r0 r1)) = Fin (2 * real (disagreements r0 r1))"
  using foldl_abs_diff_signed[of r0 r1 0] by (simp add: np_sum_def vec_sub_def)

text \<open>
  C9 (the polarity fix compares the target and the XOR-combination of the learned chains
  on a batch of 10 challenges and negates the first chain exactly when more than half of
  the outputs disagree; the other chains are returned unchanged): for two evaluators that
  return one response, \<open>1\<close> or \<open>-1\<close>, for each of the 10 challenges, \<open>difference\<close> is
  twice the number of disagreements, so the test \<open>difference > challenge_num\<close> is
  \<open>disagreements > 5\<close>.
\<close>

theorem set_pole_of_LTFs_negates_first_chain:
  assumes len0: "length (instance_eval challenges) = 10"
      and len1: "length (xor_eval (w # ws) challenges) = 10"
      and sg0: "signed_responses (instance_eval challenges)"
      and sg1: "signed_responses (xor_eval (w # ws) challenges)"
  shows "set_pole_of_LTFs instance_eval xor_eval challenges (w # ws) =
           Inr ((if 10 div 2 < disagreements (instance_eval challenges) (xor_eval (w # ws) challenges)
                 then map uminus w else w) # ws)"
proof -
  let ?r0 = "instance_eval challenges" and ?r1 = "xor_eval (w # ws) challenges"
  have s0: "store_row (zeros2 2 10) 10 0 ?r0 = Inr [?r0, zeros 10]"
    using len0 by (simp add: store_row_def zeros2_def numeral_2_eq_2)
  have s1: "store_row [?r0, zeros 10] 10 (Suc 0) ?r1 = Inr [?r0, ?r1]"
    using len1 by (simp add: store_row_def)
  have d: "np_sum (map np_abs (vec_sub ?r0 ?r1)) = Fin (2 * real (disagreements ?r0 ?r1))"
    by (rule difference_is_twice_disagreements[OF sg0 sg1])
  show ?thesis
    by (simp add: set_pole_of_LTFs_def Let_def s0 s1 d vec_scal_minus_one)
qed

theorem set_pole_of_LTFs_negates_first_chain_witness:
  "set_pole_of_LTFs (\<lambda>cs. [Fin 1, Fin 1, Fin 1, Fin 1, Fin 1, Fin 1, Fin 1, Fin 1, Fin 1, Fin 1])
     (\<lambda>W cs. [Fin (- 1), Fin (- 1), Fin (- 1), Fin (- 1), Fin (- 1), Fin (- 1), Fin 1, Fin 1, Fin 1, Fin 1])
     [] [[Fin 1, Fin 2], [Fin 3, Fin 4]]
   = Inr [[Fin (- 1), Fin (- 2)], [Fin 3, Fin 4]]"
  using set_pole_of_LTFs_negates_first_chain
    [of "\<lambda>cs. [Fin 1, Fin 1, Fin 1, Fin 1, Fin 1, Fin 1, Fin 1, Fin 1, Fin 1, Fin 1]" "[]"
        "\<lambda>W cs. [Fin (- 1), Fin (- 1), Fin (- 1), Fin (- 1), Fin (- 1), Fin (- 1), Fin 1, Fin 1, Fin 1, Fin 1]"
        "[Fin 1, Fin 2]" "[[Fin 3, Fin 4]]"]
  by (simp add: signed_responses_def disagreements_def)

subsection \<open>The constructor\<close>

lemma np_int_one_iff: "np_int (Fin s) = Inr 1 \<longleftrightarrow> 1 \<le> s \<and> s < 2"
proof (cases "0 \<le> s")
  case True
  then show ?thesis by (simp add: floor_eq_iff)
next
  case False
  then have "\<lceil>s\<rceil> \<le> 0" by (simp add: ceiling_le_iff)
  then have "\<lceil>s\<rceil> \<noteq> 1" by linarith
  with False show ?thesis by simp
qed

lemma np_int_Fin: "np_int (Fin s) = Inr (if 0 \<le> s then \<lfloor>s\<rfloor> else \<lceil>s\<rceil>)"
  by simp

lemma init_eq:
  "init fl inst pop_size parent_size priorities challenge_num repeat unreliability precision =
     (if pop_size < 0 then Inl ValueError
      else if int (length priorities) \<noteq> parent_size then Inl AssertionError
      else if f_sum fl priorities = NaN then Inl ValueError
      else if np_int (f_sum fl priorities) \<noteq> Inr 1 then Inl AssertionError
      else if \<not> (f_add fl (c_1_of fl (puf_n inst + 1)) (c_mu_of fl (puf_n inst + 1) priorities)
                  \<le> Fin 1)
      then Inl AssertionError
      else Inr \<lparr>
                 self_n = puf_n inst + 1,
                 self_different_LTFs = zeros2 (puf_k inst) (puf_n inst + 1),
                 self_unreliability = unreliability,
                 self_precision = precision,
                 self_num_of_LTFs = 0,
                 self_instance = inst,
                 self_challenge_num = challenge_num,
                 self_repeat = repeat,
                 self_individuals = zeros2 (nat pop_size) (puf_n inst + 1),
                 self_mean = zeros (puf_n inst + 1),
                 self_step_size = Fin 1,
                 self_pop_size = pop_size,
                 self_parent_size = parent_size,
                 self_priorities = priorities,
                 self_cov_matrix = identity (puf_n inst + 1),
                 self_path_cm = zeros (puf_n inst + 1),
                 self_path_ss = zeros (puf_n inst + 1),
                 self_mu_w = mu_w_of fl priorities,
                 self_c_mu = c_mu_of fl (puf_n inst + 1) priorities,
                 self_d_sigma = d_sigma_of fl (puf_n inst + 1) priorities,
                 self_c_1 = c_1_of fl (puf_n inst + 1),
                 self_c_c = c_c_of fl (puf_n inst + 1),
                 self_c_sigma = c_sigma_of fl (puf_n inst + 1) \<rparr>)"
proof (cases "f_sum fl priorities")
  case (Fin s)
  then show ?thesis unfolding init_def Let_def by (simp del: np_int.simps add: np_int_Fin)
next
  case NaN
  then show ?thesis unfolding init_def Let_def by simp
qed

lemmas exact_defs = exact_arith_def np_sum_def c_1_of_def c_mu_of_def mu_w_of_def

text \<open>
  C5, as stated (construction fails for a non-positive \<open>pop_size\<close> and for
  \<open>parent_size > pop_size\<close>), does not hold: with \<open>pop_size = 0\<close>, \<open>parent_size = 2\<close> and
  priorities \<open>[1/2, 1/2]\<close> the constructor returns a learner. The sums and quotients that
  the assertions test (\<open>1/2 + 1/2\<close>, \<open>1/4 + 1/4\<close>, \<open>1 / (1/2)\<close>, \<open>2/16\<close>,
  \<open>1/8 + 1/8\<close>) are exact in float64.
\<close>

theorem init_accepts_parent_size_above_pop_size:
  "(0::int) \<le> 0 \<and> (0::int) < 2
   \<and> \<not> isl (init exact_arith \<lparr>puf_n = 3, puf_k = 2\<rparr> 0 2 [Fin (1/2), Fin (1/2)] 100 5
              (Fin 0) (Fin (9/10)))"
  by (simp add: init_eq exact_defs)

text \<open>
  C5, amended: in float64 arithmetic, whatever its rounding, construction fails when the
  priorities' length differs from \<open>parent_size\<close>, when their float64 sum, as
  \<open>np.ndarray.sum\<close> returns it, is below 1 or at least 2, when \<open>c_1 + c_mu \<le> 1\<close> does not
  hold for the computed constants, when \<open>pop_size\<close> is negative and when \<open>parent_size\<close>
  is not positive (the sum of no priorities being 0); it succeeds for every valid
  configuration (length equal to \<open>parent_size\<close>, float64 sum exactly 1, computed
  \<open>c_1 + c_mu \<le> 1\<close>, both sizes positive, \<open>parent_size \<le> pop_size\<close>).
\<close>

theorem init_fails_on_invalid_configuration:
  "(int (length priorities) \<noteq> parent_size \<longrightarrow>
      isl (init fl inst pop_size parent_size priorities challenge_num repeat unreliability precision))
   \<and> (\<forall>s. f_sum fl priorities = Fin s \<and> (s < 1 \<or> 2 \<le> s) \<longrightarrow>
      isl (init fl inst pop_size parent_size priorities challenge_num repeat unreliability precision))
   \<and> (\<not> (f_add fl (c_1_of fl (puf_n inst + 1)) (c_mu_of fl (puf_n inst + 1) priorities)
            \<le> Fin 1) \<longrightarrow>
      isl (init fl inst pop_size parent_size priorities challenge_num repeat unreliability precision))
   \<and> (pop_size < 0 \<longrightarrow>
      isl (init fl inst pop_size parent_size priorities challenge_num repeat unreliability precision))
   \<and> (parent_size \<le> 0 \<and> f_sum fl [] = Fin 0 \<longrightarrow>
      isl (init fl inst pop_size parent_size priorities challenge_num repeat unreliability precision))
   \<and> (int (length priorities) = parent_size \<and> f_sum fl priorities = Fin 1
        \<and> f_add fl (c_1_of fl (puf_n inst + 1)) (c_mu_of fl (puf_n inst + 1) priorities) \<le> Fin 1
        \<and> 0 < pop_size \<and> 0 < parent_size \<and> parent_size \<le> pop_size \<longrightarrow>
      \<not> isl (init fl inst pop_size parent_size priorities challenge_num repeat unreliability precision))"
proof (intro conjI impI allI)
  assume "int (length priorities) \<noteq> parent_size"
  then show "isl (init fl inst pop_size parent_size priorities challenge_num repeat unreliability precision)"
    by (simp add: init_eq)
next
  fix s assume "f_sum fl priorities = Fin s \<and> (s < 1 \<or> 2 \<le> s)"
  then have "f_sum fl priorities = Fin s" and "np_int (Fin s) \<noteq> Inr 1"
    using np_int_one_iff[of s] by auto
  then show "isl (init fl inst pop_size parent_size priorities challenge_num repeat unreliability precision)"
    by (simp add: init_eq del: np_int.simps)
next
  assume "\<not> (f_add fl (c_1_of fl (puf_n inst + 1)) (c_mu_of fl (puf_n inst + 1) priorities)
            \<le> Fin 1)"
  then show "isl (init fl inst pop_size parent_size priorities challenge_num repeat unreliability precision)"
    by (simp add: init_eq)
next
  assume "pop_size < 0"
  then show "isl (init fl inst pop_size parent_size priorities challenge_num repeat unreliability precision)"
    by (simp add: init_eq)
next
  assume p: "parent_size \<le> 0 \<and> f_sum fl [] = Fin 0"
  show "isl (init fl inst pop_size parent_size priorities challenge_num repeat unreliability precision)"
  proof (cases "int (length priorities) = parent_size")
    case True
    with p have "length priorities = 0" by linarith
    then have "priorities = []" by simp
    then show ?thesis using p by (simp add: init_eq)
  next
    case False
    then show ?thesis by (simp add: init_eq)
  qed
next
  assume "int (length priorities) = parent_size \<and> f_sum fl priorities = Fin 1
        \<and> f_add fl (c_1_of fl (puf_n inst + 1)) (c_mu_of fl (puf_n inst + 1) priorities) \<le> Fin 1
        \<and> 0 < pop_size \<and> 0 < parent_size \<and> parent_size \<le> pop_size"
  then show "\<not> isl (init fl inst pop_size parent_size priorities challenge_num repeat unreliability precision)"
    by (simp add: init_eq)
qed

theorem init_fails_on_invalid_configuration_witness:
  "\<not> isl (init exact_arith \<lparr>puf_n = 3, puf_k = 2\<rparr> 4 2 [Fin (1/2), Fin (1/2)] 100 5
            (Fin 0) (Fin (9/10)))
   \<and> isl (init exact_arith \<lparr>puf_n = 3, puf_k = 2\<rparr> 4 3 [Fin (1/2), Fin (1/2)] 100 5
            (Fin 0) (Fin (9/10)))"
  using init_fails_on_invalid_configuration
      [where fl = exact_arith and priorities = "[Fin (1/2), Fin (1/2)]" and parent_size = 2
         and inst = "\<lparr>puf_n = 3, puf_k = 2\<rparr>" and pop_size = 4 and challenge_num = 100
         and repeat = 5 and unreliability = "Fin 0" and precision = "Fin (9/10)"]
    init_fails_on_invalid_configuration
      [where fl = exact_arith and priorities = "[Fin (1/2), Fin (1/2)]" and parent_size = 3
         and inst = "\<lparr>puf_n = 3, puf_k = 2\<rparr>" and pop_size = 4 and challenge_num = 100
         and repeat = 5 and unreliability = "Fin 0" and precision = "Fin (9/10)"]
  by (simp add: exact_defs)

text \<open>
  C10, as stated (every priorities vector of length \<open>parent_size\<close> with a sum in \<open>[1, 2)\<close>
  is accepted), does not hold: four priorities of \<open>1/4\<close> for a target of challenge length
  1 pass the check on the sum and fail the later assertion \<open>c_1 + c_mu \<le> 1\<close>. Every
  operation on the way (\<open>4 * 1/4\<close>, \<open>4 * 1/16\<close>, \<open>1 / (1/4)\<close>, \<open>4/4\<close>, \<open>2/4\<close>,
  \<open>1/2 + 1\<close>) is exact in float64.
\<close>

theorem init_rejects_unit_sum_with_large_c_mu:
  "int (length [Fin (1/4), Fin (1/4), Fin (1/4), Fin (1/4)]) = 4
   \<and> f_sum exact_arith [Fin (1/4), Fin (1/4), Fin (1/4), Fin (1/4)] = Fin 1
   \<and> init exact_arith \<lparr>puf_n = 1, puf_k = 1\<rparr> 4 4 [Fin (1/4), Fin (1/4), Fin (1/4), Fin (1/4)]
        100 5 (Fin 0) (Fin (9/10)) = Inl AssertionError"
  by (simp add: init_eq exact_defs)

text \<open>
  C10, amended: the float64 sum of the priorities, as \<open>np.ndarray.sum\<close> returns it, is
  truncated to an integer before it is compared with 1. For priorities of length
  \<open>parent_size\<close> and a \<open>pop_size\<close> that is not negative, construction succeeds whenever
  that sum lies in \<open>[1, 2)\<close> and the computed \<open>c_1 + c_mu\<close> is at most 1, and fails
  with an AssertionError whenever that sum lies in \<open>[0, 1)\<close>.
\<close>

theorem init_truncates_priorities_sum:
  assumes "int (length priorities) = parent_size"
      and "f_sum fl priorities = Fin s"
      and "0 \<le> pop_size"
  shows "(1 \<le> s \<and> s < 2
          \<and> f_add fl (c_1_of fl (puf_n inst + 1)) (c_mu_of fl (puf_n inst + 1) priorities)
              \<le> Fin 1 \<longrightarrow>
            \<not> isl (init fl inst pop_size parent_size priorities challenge_num repeat unreliability precision))
       \<and> (0 \<le> s \<and> s < 1 \<longrightarrow>
            init fl inst pop_size parent_size priorities challenge_num repeat unreliability precision
              = Inl AssertionError)"
proof (intro conjI impI)
  assume "1 \<le> s \<and> s < 2
          \<and> f_add fl (c_1_of fl (puf_n inst + 1)) (c_mu_of fl (puf_n inst + 1) priorities)
              \<le> Fin 1"
  moreover from this have "np_int (Fin s) = Inr 1" by (simp add: np_int_one_iff del: np_int.simps)
  ultimately show "\<not> isl (init fl inst pop_size parent_size priorities challenge_num repeat unreliability precision)"
    using assms by (simp add: init_eq del: np_int.simps)
next
  assume "0 \<le> s \<and> s < 1"
  then have "np_int (Fin s) \<noteq> Inr 1" by (simp add: np_int_one_iff del: np_int.simps)
  then show "init fl inst pop_size parent_size priorities challenge_num repeat unreliability precision
              = Inl AssertionError"
    using assms by (simp add: init_eq del: np_int.simps)
qed

theorem init_truncates_priorities_sum_witness:
  "f_sum exact_arith [Fin (1/2), Fin (1/4), Fin (1/4), Fin (1/4), Fin (1/4)] = Fin (3/2)
   \<and> \<not> isl (init exact_arith \<lparr>puf_n = 3, puf_k = 2\<rparr> 30 5
              [Fin (1/2), Fin (1/4), Fin (1/4), Fin (1/4), Fin (1/4)] 100 5 (Fin 0) (Fin (9/10)))
   \<and> init exact_arith \<lparr>puf_n = 3, puf_k = 2\<rparr> 30 1 [Fin (1/2)] 100 5 (Fin 0) (Fin (9/10))
       = Inl AssertionError"
  using init_truncates_priorities_sum
      [where fl = exact_arith and priorities = "[Fin (1/2), Fin (1/4), Fin (1/4), Fin (1/4), Fin (1/4)]"
         and parent_size = 5 and s = "3/2" and pop_size = 30
         and inst = "\<lparr>puf_n = 3, puf_k = 2\<rparr>" and challenge_num = 100 and repeat = 5
         and unreliability = "Fin 0" and precision = "Fin (9/10)"]
    init_truncates_priorities_sum
      [where fl = exact_arith and priorities = "[Fin (1/2)]" and parent_size = 1 and s = "1/2"
         and pop_size = 30 and inst = "\<lparr>puf_n = 3, puf_k = 2\<rparr>" and challenge_num = 100
         and repeat = 5 and unreliability = "Fin 0" and precision = "Fin (9/10)"]
  by (simp add: exact_defs)

subsection \<open>Comparing chains\<close>

lemma store_row_length: "store_row responses cn r v = Inr responses' \<Longrightarrow> length responses' = length responses"
  by (auto simp: store_row_def split: if_splits)

lemma store_row_out_of_bounds:
  "length responses \<le> r \<Longrightarrow> store_row responses cn r v = Inl (IndexError_out_of_bounds r (length responses))"
  by (simp add: store_row_def)

lemma is_different_LTF_loop_fails:
  "ws \<noteq> [] \<Longrightarrow> length responses \<le> j + length ws \<Longrightarrow>
   isl (is_different_LTF_loop ltf_eval challenges cn (enumerate j ws) responses)"
proof (induction ws arbitrary: j responses)
  case Nil
  then show ?case by simp
next
  case (Cons w ws)
  show ?case
  proof (cases "store_row responses cn (j + 1) (ltf_eval w challenges)")
    case (Inl e)
    then show ?thesis by simp
  next
    case (Inr responses')
    then have len: "length responses' = length responses" by (rule store_row_length)
    have "j + 1 < length responses"
      using Inr by (auto simp: store_row_def split: if_splits)
    with Cons.prems have ne: "ws \<noteq> []" by auto
    have "isl (is_different_LTF_loop ltf_eval challenges cn (enumerate (Suc j) ws) responses')"
      using Cons.prems len by (intro Cons.IH[OF ne]) simp
    with Inr show ?thesis by simp
  qed
qed

lemma is_different_LTF_loop_out_of_bounds:
  "ws \<noteq> [] \<Longrightarrow> length responses = j + length ws \<Longrightarrow>
   \<forall>W. length (ltf_eval W challenges) = cn \<Longrightarrow>
   is_different_LTF_loop ltf_eval challenges cn (enumerate j ws) responses
     = Inl (IndexError_out_of_bounds (length responses) (length responses))"
proof (induction ws arbitrary: j responses)
  case Nil
  then show ?case by simp
next
  case (Cons w ws)
  show ?case
  proof (cases "ws = []")
    case True
    with Cons.prems have "length responses = j + 1" by simp
    then show ?thesis using True by (simp add: store_row_def)
  next
    case False
    from Cons.prems False have lt: "j + 1 < length responses" by (cases ws) auto
    let ?r = "responses[j + 1 := ltf_eval w challenges]"
    have st: "store_row responses cn (j + 1) (ltf_eval w challenges) = Inr ?r"
      using lt Cons.prems(3) by (simp add: store_row_def)
    have "is_different_LTF_loop ltf_eval challenges cn (enumerate (Suc j) ws) ?r
            = Inl (IndexError_out_of_bounds (length ?r) (length ?r))"
      using Cons.prems by (intro Cons.IH[OF False]) simp_all
    with st show ?thesis by simp
  qed
qed

lemma is_different_LTF_never_returns:
  assumes pos: "0 < self_num_of_LTFs self"
      and le: "self_num_of_LTFs self \<le> length (self_different_LTFs self)"
  shows "isl (is_different_LTF ltf_eval self new_LTF challenges)"
proof (cases new_LTF)
  case (Array1 u)
  then show ?thesis using pos by (simp add: is_different_LTF_def)
next
  case (Array2 N)
  let ?k = "self_num_of_LTFs self"
  let ?ws = "build_LTFArrays (map butlast (take ?k (self_different_LTFs self)))"
  have lws: "length ?ws = ?k" using le by (simp add: build_LTFArrays_def)
  then have ne: "?ws \<noteq> []" using pos by auto
  show ?thesis
  proof (cases "store_row (zeros2 ?k (self_challenge_num self)) (self_challenge_num self) 0
                  (ltf_eval (map butlast N) challenges)")
    case (Inl e)
    then show ?thesis using pos Array2 by (simp add: is_different_LTF_def)
  next
    case (Inr responses1)
    then have "length responses1 = ?k"
      using store_row_length[OF Inr] by (simp add: zeros2_def)
    then have "isl (is_different_LTF_loop ltf_eval challenges (self_challenge_num self)
                      (enumerate 0 ?ws) responses1)"
      using lws by (intro is_different_LTF_loop_fails[OF ne]) simp
    then show ?thesis using pos Array2 Inr
      by (auto simp: is_different_LTF_def Let_def split: sum.splits)
  qed
qed

text \<open>
  C3 (with a chain already accepted, \<^verbatim>\<open>is_different_LTF\<close> returns False for a new chain
  equal to it and for its negation; with none accepted it returns True): with one chain
  \<open>[1, 1/2]\<close> accepted the code returns nothing at all. For the chain itself and for its
  negation, one-dimensional as \<^verbatim>\<open>learn_LTF\<close> returns them, \<open>new_LTF[:, :-1]\<close> raises
  IndexError; passed as a one-row matrix the chain gets as far as the loop, which raises
  too.
\<close>

theorem is_different_LTF_rejects_nothing:
  "is_different_LTF ltf_eval
     learner_with_one_chain
     (Array1 [Fin 1, Fin (1/2)]) challenges
   = Inl IndexError_too_many_indices
   \<and> is_different_LTF ltf_eval
     learner_with_one_chain
     (Array1 [Fin (- 1), Fin (- 1/2)]) challenges
   = Inl IndexError_too_many_indices
   \<and> isl (is_different_LTF ltf_eval
     learner_with_one_chain
     (Array2 [[Fin 1, Fin (1/2)]]) challenges)"
proof (intro conjI)
  show "isl (is_different_LTF ltf_eval
     learner_with_one_chain
     (Array2 [[Fin 1, Fin (1/2)]]) challenges)"
    by (rule is_different_LTF_never_returns) simp_all
qed (simp_all add: is_different_LTF_def)

text \<open>
  C4, as stated (on every call with a chain accepted the out-of-bounds write to row
  \<open>num_of_LTFs\<close> of \<open>responses\<close> is the error reached), does not hold: for a
  one-dimensional \<open>new_LTF\<close>, which is what \<^verbatim>\<open>learn\<close> passes, the call raises at
  \<open>new_LTF[:, :-1]\<close>, before the buffer is allocated.
\<close>

theorem is_different_LTF_one_dimensional_chain:
  "is_different_LTF (\<lambda>W cs. map (\<lambda>c. Fin 1) cs)
     learner_with_one_chain
     (Array1 [Fin 2, Fin 3]) [[1], [1], [- 1], [- 1]]
   = Inl IndexError_too_many_indices
   \<and> is_different_LTF (\<lambda>W cs. map (\<lambda>c. Fin 1) cs)
     learner_with_one_chain
     (Array1 [Fin 2, Fin 3]) [[1], [1], [- 1], [- 1]]
   \<noteq> Inl (IndexError_out_of_bounds 1 1)"
  by (simp add: is_different_LTF_def)

text \<open>
  C4, amended: on every call with \<open>num_of_LTFs \<ge> 1\<close> chains accepted (and stored in
  \<open>different_LTFs\<close>) the comparison never completes normally. A one-dimensional \<open>new_LTF\<close>
  raises IndexError at \<open>new_LTF[:, :-1]\<close>. For a two-dimensional one, with evaluators that
  return one response for each challenge, the buffer of \<open>num_of_LTFs\<close> rows is written at
  rows 0 to \<open>num_of_LTFs\<close>, and the write at row \<open>num_of_LTFs\<close> raises IndexError.
\<close>

theorem is_different_LTF_raises:
  assumes pos: "0 < self_num_of_LTFs self"
      and le: "self_num_of_LTFs self \<le> length (self_different_LTFs self)"
  shows "isl (is_different_LTF ltf_eval self new_LTF challenges)
       \<and> is_different_LTF ltf_eval self (Array1 v) challenges = Inl IndexError_too_many_indices
       \<and> ((\<forall>W. length (ltf_eval W challenges) = self_challenge_num self) \<longrightarrow>
            is_different_LTF ltf_eval self (Array2 M) challenges
              = Inl (IndexError_out_of_bounds (self_num_of_LTFs self) (self_num_of_LTFs self)))"
proof (intro conjI impI)
  let ?k = "self_num_of_LTFs self"
  let ?ws = "build_LTFArrays (map butlast (take ?k (self_different_LTFs self)))"
  have lws: "length ?ws = ?k" using le by (simp add: build_LTFArrays_def)
  then have ne: "?ws \<noteq> []" using pos by auto
  show "is_different_LTF ltf_eval self (Array1 v) challenges = Inl IndexError_too_many_indices"
    using pos by (simp add: is_different_LTF_def)
  show "isl (is_different_LTF ltf_eval self new_LTF challenges)"
    by (rule is_different_LTF_never_returns[OF pos le])
  assume len: "\<forall>W. length (ltf_eval W challenges) = self_challenge_num self"
  let ?r1 = "(zeros2 ?k (self_challenge_num self))[0 := ltf_eval (map butlast M) challenges]"
  have st: "store_row (zeros2 ?k (self_challenge_num self)) (self_challenge_num self) 0
              (ltf_eval (map butlast M) challenges) = Inr ?r1"
    using pos len by (simp add: store_row_def zeros2_def)
  have lr: "length ?r1 = ?k" by (simp add: zeros2_def)
  have "is_different_LTF_loop ltf_eval challenges (self_challenge_num self) (enumerate 0 ?ws) ?r1
          = Inl (IndexError_out_of_bounds (length ?r1) (length ?r1))"
    using lws lr len by (intro is_different_LTF_loop_out_of_bounds[OF ne]) simp_all
  then show "is_different_LTF ltf_eval self (Array2 M) challenges
              = Inl (IndexError_out_of_bounds ?k ?k)"
    using pos st lr by (simp add: is_different_LTF_def Let_def)
qed

theorem is_different_LTF_raises_witness:
  "is_different_LTF (\<lambda>W cs. map (\<lambda>c. Fin 1) cs)
     learner_with_one_chain
     (Array2 [[Fin 2, Fin 3]]) [[1], [1], [- 1], [- 1]]
   = Inl (IndexError_out_of_bounds 1 1)"
  using is_different_LTF_raises
    [of "learner_with_one_chain"
        "\<lambda>W cs. map (\<lambda>c. Fin 1) cs" "Array2 [[Fin 2, Fin 3]]" "[[1], [1], [- 1], [- 1]]"
        "[Fin 2, Fin 3]" "[[Fin 2, Fin 3]]"]
  by simp

subsection \<open>The evolution path of the covariance matrix\<close>

text \<open>
  C8 (in a generation's update \<open>path_cm\<close> is decayed by \<open>1 - c_c\<close>, and
  \<open>sqrt(1 - (1 - c_c)^2) * sqrt(mu_w) * parent\<close> is added exactly when the norm of
  \<open>path_ss\<close>, as it was before this generation's update of \<open>path_ss\<close>, is strictly below
  \<open>1.5 * sqrt(n)\<close>): whenever the update returns a learner, its \<open>path_cm\<close> is this value,
  computed in float64 arithmetic, whatever its rounding, from the fields of the learner
  the update started from; the norm, the bound and their comparison are the ones float64
  computes.
\<close>

theorem learn_LTF_update_path_cm:
  assumes "learn_LTF_update fl eigh self sorted_individuals = Inr self'"
  shows "\<exists>parent.
           get_parent fl (self_n self) sorted_individuals (self_parent_size self)
             (self_priorities self) = Inr parent
         \<and> self_path_cm self' =
             (if f_norm fl (self_path_ss self)
                   < f_mul fl (Fin (15/10)) (f_sqrt fl (Fin (real (self_n self))))
              then map2 (f_add fl)
                     (map (\<lambda>x. f_mul fl x (f_sub fl (Fin 1) (self_c_c self))) (self_path_cm self))
                     (map (f_mul fl
                             (f_mul fl
                                (f_sqrt fl
                                   (f_sub fl (Fin 1)
                                      (f_pow fl (f_sub fl (Fin 1) (self_c_c self)) 2)))
                                (f_sqrt fl (self_mu_w self))))
                        parent)
              else map (\<lambda>x. f_mul fl x (f_sub fl (Fin 1) (self_c_c self))) (self_path_cm self))"
  using assms
  unfolding learn_LTF_update_def cumulation_for_cm_def Let_def
  by (auto split: sum.splits)

text \<open>
  Three generations, on operands for which the operations of the update of \<open>path_cm\<close> are
  exact. For the learner in search (\<open>c_c = 1\<close>, \<open>path_cm = [5, 6, 7, 8]\<close>) and the
  fittest individual \<open>[1, 2, 3, 4]\<close>: with \<open>path_ss = [1, 0, 0, 0]\<close>, of norm 1 below
  \<open>1.5 * sqrt(4) = 3\<close>, the old path decays to zero and the parent is added; with
  \<open>path_ss = [4, 0, 0, 0]\<close>, of norm 4, nothing is added. For the learner of dimension 2
  (\<open>c_c = 2\<close>) the path \<open>[1, 2]\<close> decays to \<open>[-1, -2]\<close> and the parent is added with
  the factor \<open>sqrt(1 - 1) = 0\<close>.
\<close>

theorem learn_LTF_update_path_cm_witness:
  "self_path_cm (projr (learn_LTF_update exact_arith
       (\<lambda>M. Inr ([Fin 1, Fin 1, Fin 1, Fin 1],
                  [[Fin 1, Fin 0, Fin 0, Fin 0], [Fin 0, Fin 1, Fin 0, Fin 0],
                   [Fin 0, Fin 0, Fin 1, Fin 0], [Fin 0, Fin 0, Fin 0, Fin 1]]))
       learner_in_search
       [[Fin 1, Fin 2, Fin 3, Fin 4], [Fin 0, Fin 1, Fin 0, Fin 1]]))
     = [Fin 1, Fin 2, Fin 3, Fin 4]
   \<and> self_path_cm (projr (learn_LTF_update exact_arith
       (\<lambda>M. Inr ([Fin 1, Fin 1, Fin 1, Fin 1],
                  [[Fin 1, Fin 0, Fin 0, Fin 0], [Fin 0, Fin 1, Fin 0, Fin 0],
                   [Fin 0, Fin 0, Fin 1, Fin 0], [Fin 0, Fin 0, Fin 0, Fin 1]]))
       (learner_in_search\<lparr>self_path_ss := [Fin 4, Fin 0, Fin 0, Fin 0]\<rparr>)
       [[Fin 1, Fin 2, Fin 3, Fin 4], [Fin 0, Fin 1, Fin 0, Fin 1]]))
     = [Fin 0, Fin 0, Fin 0, Fin 0]
   \<and> self_path_cm (projr (learn_LTF_update exact_arith
       (\<lambda>M. Inr ([Fin 1, Fin 1], [[Fin 1, Fin 0], [Fin 0, Fin 1]]))
       (learner_with_one_chain\<lparr>self_path_cm := [Fin 1, Fin 2]\<rparr>)
       [[Fin 3, Fin 4], [Fin 0, Fin 1], [Fin 1, Fin 0], [Fin 1, Fin 1]]))
     = [Fin (- 1), Fin (- 2)]"
proof -
  let ?eigh4 = "\<lambda>M::matrix. (Inr ([Fin 1, Fin 1, Fin 1, Fin 1],
                  [[Fin 1, Fin 0, Fin 0, Fin 0], [Fin 0, Fin 1, Fin 0, Fin 0],
                   [Fin 0, Fin 0, Fin 1, Fin 0], [Fin 0, Fin 0, Fin 0, Fin 1]])
                :: error + vector \<times> matrix)"
  let ?eigh2 = "\<lambda>M::matrix. (Inr ([Fin 1, Fin 1], [[Fin 1, Fin 0], [Fin 0, Fin 1]])
                :: error + vector \<times> matrix)"
  let ?inds4 = "[[Fin 1, Fin 2, Fin 3, Fin 4], [Fin 0, Fin 1, Fin 0, Fin 1]]"
  let ?inds2 = "[[Fin 3, Fin 4], [Fin 0, Fin 1], [Fin 1, Fin 0], [Fin 1, Fin 1]]"
  let ?A = "learner_in_search"
  let ?B = "learner_in_search\<lparr>self_path_ss := [Fin 4, Fin 0, Fin 0, Fin 0]\<rparr>"
  let ?C = "learner_with_one_chain\<lparr>self_path_cm := [Fin 1, Fin 2]\<rparr>"
  have four: "[0..<4] = [0, 1, 2, 3]" by (simp add: upt_rec)
  have two: "[0..<2] = [0, 1]" by (simp add: upt_rec)
  have sqrt16: "sqrt 16 = 4" by (rule real_sqrt_unique) simp_all
  have parent4: "get_parent exact_arith 4 ?inds4 1 [Fin 1] = Inr [Fin 1, Fin 2, Fin 3, Fin 4]"
    by (simp add: get_parent_def shape1_def zeros_def exact_arith_def numeral_eq_Suc)
  have parent2: "get_parent exact_arith 2 ?inds2 1 [Fin 1] = Inr [Fin 3, Fin 4]"
    by (simp add: get_parent_def shape1_def zeros_def exact_arith_def numeral_eq_Suc)
  have cm4: "\<not> isl (get_cm_mu exact_arith 4 ?inds4 1 [Fin 1])"
    by (simp add: get_cm_mu_def)
  have cm2: "\<not> isl (get_cm_mu exact_arith 2 ?inds2 1 [Fin 1])"
    by (simp add: get_cm_mu_def)
  have dec4: "\<not> isl (modify_eigen_decomposition ?eigh4
                        [[Fin 1, Fin 0, Fin 0, Fin 0], [Fin 0, Fin 1, Fin 0, Fin 0],
                         [Fin 0, Fin 0, Fin 1, Fin 0], [Fin 0, Fin 0, Fin 0, Fin 1]])"
    by (simp add: modify_eigen_decomposition_def linalg_inv_def diagonal_of_def np_diag_def four)
  have dec2: "\<not> isl (modify_eigen_decomposition ?eigh2 [[Fin 1, Fin 0], [Fin 0, Fin 1]])"
    by (simp add: modify_eigen_decomposition_def linalg_inv_def diagonal_of_def np_diag_def two)
  have okA: "\<not> isl (learn_LTF_update exact_arith ?eigh4 ?A ?inds4)"
    using parent4 cm4 dec4
    by (auto simp: learn_LTF_update_def cumulation_for_ss_def Let_def split: sum.splits)
  have okB: "\<not> isl (learn_LTF_update exact_arith ?eigh4 ?B ?inds4)"
    using parent4 cm4 dec4
    by (auto simp: learn_LTF_update_def cumulation_for_ss_def Let_def split: sum.splits)
  have okC: "\<not> isl (learn_LTF_update exact_arith ?eigh2 ?C ?inds2)"
    using parent2 cm2 dec2
    by (auto simp: learn_LTF_update_def cumulation_for_ss_def Let_def split: sum.splits)
  have eqA: "learn_LTF_update exact_arith ?eigh4 ?A ?inds4
               = Inr (projr (learn_LTF_update exact_arith ?eigh4 ?A ?inds4))"
    using okA by (cases "learn_LTF_update exact_arith ?eigh4 ?A ?inds4") simp_all
  have eqB: "learn_LTF_update exact_arith ?eigh4 ?B ?inds4
               = Inr (projr (learn_LTF_update exact_arith ?eigh4 ?B ?inds4))"
    using okB by (cases "learn_LTF_update exact_arith ?eigh4 ?B ?inds4") simp_all
  have eqC: "learn_LTF_update exact_arith ?eigh2 ?C ?inds2
               = Inr (projr (learn_LTF_update exact_arith ?eigh2 ?C ?inds2))"
    using okC by (cases "learn_LTF_update exact_arith ?eigh2 ?C ?inds2") simp_all
  from learn_LTF_update_path_cm[OF eqA] parent4
  have A: "self_path_cm (projr (learn_LTF_update exact_arith ?eigh4 ?A ?inds4))
             = [Fin 1, Fin 2, Fin 3, Fin 4]"
    by (simp add: exact_arith_def np_sum_def norm_vec_def square_def)
  from learn_LTF_update_path_cm[OF eqB] parent4
  have B: "self_path_cm (projr (learn_LTF_update exact_arith ?eigh4 ?B ?inds4))
             = [Fin 0, Fin 0, Fin 0, Fin 0]"
    by (simp add: exact_arith_def np_sum_def norm_vec_def square_def sqrt16)
  from learn_LTF_update_path_cm[OF eqC] parent2
  have C: "self_path_cm (projr (learn_LTF_update exact_arith ?eigh2 ?C ?inds2))
             = [Fin (- 1), Fin (- 2)]"
    by (simp add: exact_arith_def np_sum_def norm_vec_def square_def)
  from A B C show ?thesis by simp
qed

subsection \<open>The evolution path of the step size\<close>

lemma np_sqrt_zero_iff: "np_sqrt x = Fin 0 \<longleftrightarrow> x = Fin 0"
  by (cases x) auto

lemma diagonal_of_sqrt_np_diag:
  "diagonal_of (map (map np_sqrt) (np_diag v)) = map np_sqrt v"
  by (auto simp: diagonal_of_def np_diag_def intro!: nth_equalityI)

lemma list_ex_sqrt_zero:
  "list_ex (\<lambda>x. x = Fin 0) (map np_sqrt v) = list_ex (\<lambda>x. x = Fin 0) v"
  by (induction v) (simp_all add: np_sqrt_zero_iff)

text \<open>
  NaN is absorbing: a sum or a product with a NaN operand is NaN, and so is every entry
  of a matrix product one of whose factors has a NaN in each row.
\<close>

lemma plus_NaN_right [simp]: "x + NaN = NaN"
  by (cases x) simp_all

lemma times_NaN_right [simp]: "x * NaN = NaN"
  by (cases x) simp_all

lemma foldl_plus_NaN: "foldl (+) NaN xs = NaN"
  by (induction xs) simp_all

lemma foldl_plus_has_NaN: "NaN \<in> set xs \<Longrightarrow> foldl (+) a xs = NaN"
  by (induction xs arbitrary: a) (auto simp: foldl_plus_NaN)

lemma np_sum_NaN: "NaN \<in> set xs \<Longrightarrow> np_sum xs = NaN"
  by (simp add: np_sum_def foldl_plus_has_NaN)

lemma dot_NaN:
  assumes "k < length u" "k < length v" "u ! k = NaN \<or> v ! k = NaN"
  shows "dot u v = NaN"
proof -
  have "map2 (*) u v ! k = NaN" using assms by auto
  moreover have "k < length (map2 (*) u v)" using assms by simp
  ultimately have "NaN \<in> set (map2 (*) u v)" by (metis nth_mem)
  then show ?thesis by (simp add: dot_def vec_mul_def np_sum_NaN)
qed

lemma length_transpose_mat: "length (transpose_mat M) = ncols M"
  by (simp add: transpose_mat_def)

lemma nth_transpose_mat: "j < ncols M \<Longrightarrow> transpose_mat M ! j = map (\<lambda>row. row ! j) M"
  by (simp add: transpose_mat_def)

lemma ncols_square: "0 < length M \<Longrightarrow> \<forall>row \<in> set M. length row = n \<Longrightarrow> ncols M = n"
  by (cases M) (simp_all add: ncols_def)

lemma length_np_diag: "length (np_diag d) = length d"
  by (simp add: np_diag_def)

lemma ncols_nth0: "M \<noteq> [] \<Longrightarrow> ncols M = length (M ! 0)"
  by (cases M) (simp_all add: ncols_def)

lemma ncols_np_diag: "ncols (np_diag d) = length d"
proof (cases "d = []")
  case True
  then show ?thesis by (simp add: np_diag_def ncols_def)
next
  case False
  then have pos: "0 < length d" by simp
  then have "np_diag d \<noteq> []" using length_np_diag[of d] by auto
  then have "ncols (np_diag d) = length (np_diag d ! 0)" by (rule ncols_nth0)
  also have "\<dots> = length d" using pos by (simp add: np_diag_def)
  finally show ?thesis .
qed

lemma nth_np_diag: "i < length d \<Longrightarrow> j < length d \<Longrightarrow> np_diag d ! i ! j = (if i = j then d ! i else Fin 0)"
  by (simp add: np_diag_def)

text \<open>A row with a NaN entry, multiplied into a matrix product, makes its row NaN.\<close>

lemma mat_mul_NaN_column:
  assumes k: "k < n" and lenD: "length d = n" and dk: "d ! k = NaN"
      and i: "i < length V" and row: "length (V ! i) = n"
  shows "mat_mul V (np_diag d) ! i ! k = NaN" "length (mat_mul V (np_diag d) ! i) = n"
proof -
  have col: "transpose_mat (np_diag d) ! k = map (\<lambda>r. r ! k) (np_diag d)"
    using k lenD by (simp add: nth_transpose_mat ncols_np_diag)
  have "map (\<lambda>r. r ! k) (np_diag d) ! k = NaN"
    using k lenD dk by (simp add: length_np_diag nth_np_diag)
  then have "dot (V ! i) (transpose_mat (np_diag d) ! k) = NaN"
    using k lenD row col by (intro dot_NaN[of k]) (simp_all add: length_np_diag)
  then show "mat_mul V (np_diag d) ! i ! k = NaN"
    using i k lenD by (simp add: mat_mul_def length_transpose_mat ncols_np_diag)
  show "length (mat_mul V (np_diag d) ! i) = n"
    using i lenD by (simp add: mat_mul_def length_transpose_mat ncols_np_diag)
qed


lemma dot_NaN_row:
  assumes "k < length row" "row ! k = NaN" "length col = length row"
  shows "dot row col = NaN"
  using assms by (intro dot_NaN[of k]) simp_all

lemma map_const_replicate: "(\<And>x. x \<in> set xs \<Longrightarrow> f x = c) \<Longrightarrow> map f xs = replicate (length xs) c"
  by (induction xs) simp_all

lemma mat_mul_NaN_rows:
  assumes k: "k < n" and A: "\<And>row. row \<in> set A \<Longrightarrow> length row = n \<and> row ! k = NaN"
      and B: "\<And>col. col \<in> set (transpose_mat B) \<Longrightarrow> length col = n"
  shows "mat_mul A B = replicate (length A) (replicate (ncols B) NaN)"
proof -
  have d: "dot row col = NaN" if "row \<in> set A" "col \<in> set (transpose_mat B)" for row col
    using k A[OF that(1)] B[OF that(2)] by (intro dot_NaN_row[of k]) simp_all
  have r: "map (\<lambda>col. dot row col) (transpose_mat B) = replicate (ncols B) NaN"
    if "row \<in> set A" for row
    using map_const_replicate[of "transpose_mat B" "\<lambda>col. dot row col" NaN] d[OF that]
    by (simp add: length_transpose_mat)
  show ?thesis
    unfolding mat_mul_def
    using map_const_replicate[of A "\<lambda>row. map (\<lambda>col. dot row col) (transpose_mat B)"
        "replicate (ncols B) NaN"] r
    by simp
qed

lemma ncols_transpose_mat:
  assumes "0 < n" "length M = n" "\<And>row. row \<in> set M \<Longrightarrow> length row = n"
  shows "ncols (transpose_mat M) = n"
proof -
  have nc: "ncols M = n" using assms by (intro ncols_square) auto
  then have ne: "transpose_mat M \<noteq> []"
    using assms(1) length_transpose_mat[of M] by auto
  have "ncols (transpose_mat M) = length (transpose_mat M ! 0)" by (rule ncols_nth0[OF ne])
  also have "\<dots> = n" using nc assms(1,2) by (simp add: nth_transpose_mat)
  finally show ?thesis .
qed

lemma length_cols_transpose_mat:
  "col \<in> set (transpose_mat M) \<Longrightarrow> length col = length M"
  by (auto simp: transpose_mat_def)

lemma scal_mat_NaN: "scal_mat c (replicate m (replicate n NaN)) = replicate m (replicate n NaN)"
  by (simp add: scal_mat_def scal_vec_def)

lemma mat_vec_NaN:
  assumes "0 < n" "length v = n"
  shows "mat_vec (replicate m (replicate n NaN)) v = replicate m NaN"
proof -
  have "dot (replicate n NaN) v = NaN"
    using assms by (intro dot_NaN[of 0]) simp_all
  then show ?thesis by (simp add: mat_vec_def)
qed

lemma vec_add_NaN: "length u = n \<Longrightarrow> vec_add u (replicate n NaN) = replicate n NaN"
  by (auto simp: vec_add_def intro!: nth_equalityI)

lemma cumulation_for_ss_NaN:
  assumes e: "eigh C = Inr (vals, vecs)"
    and nz: "\<not> list_ex (\<lambda>x. x = Fin 0) vals"
    and k: "k < length vals" and neg: "vals ! k = Fin a" "a < 0"
    and V: "length vecs = length vals" "\<And>row. row \<in> set vecs \<Longrightarrow> length row = length vals"
    and p: "length parent = length vals" and ps: "length path_ss = length vals"
  shows "cumulation_for_ss eigh path_ss c_sigma mu_w C parent = Inr (replicate (length vals) NaN)"
proof -
  let ?n = "length vals"
  let ?d = "map inverse (map np_sqrt vals)"
  let ?A = "mat_mul vecs (np_diag ?d)"
  let ?B = "transpose_mat vecs"
  have pos: "0 < ?n" using k by (cases vals) simp_all
  have dec: "modify_eigen_decomposition eigh C = Inr (mat_mul ?A ?B)"
    using e nz
    by (simp add: modify_eigen_decomposition_def linalg_inv_def diagonal_of_sqrt_np_diag
        list_ex_sqrt_zero)
  have dk: "?d ! k = NaN" using k neg by simp
  have lenA: "length ?A = ?n" using V(1) by (simp add: mat_mul_def)
  have rowsA: "length row = ?n \<and> row ! k = NaN" if "row \<in> set ?A" for row
  proof -
    from that obtain i where i: "i < length ?A" "row = ?A ! i" by (metis in_set_conv_nth)
    then have iv: "i < length vecs" by (simp add: mat_mul_def)
    then have lr: "length (vecs ! i) = ?n" using V(2) by simp
    have ld: "length ?d = ?n" by simp
    show ?thesis
      using mat_mul_NaN_column[OF k ld dk iv lr] i(2) by simp
  qed
  have colsB: "length col = ?n" if "col \<in> set (transpose_mat ?B)" for col
  proof -
    have "length col = length ?B" using that by (rule length_cols_transpose_mat)
    also have "\<dots> = ncols vecs" by (rule length_transpose_mat)
    also have "\<dots> = ?n" using pos V by (intro ncols_square) auto
    finally show ?thesis .
  qed
  have ncB: "ncols ?B = ?n" using pos V by (intro ncols_transpose_mat) auto
  have cm: "mat_mul ?A ?B = replicate ?n (replicate ?n NaN)"
    using mat_mul_NaN_rows[of k ?n ?A ?B, OF k rowsA colsB] lenA ncB by simp
  show ?thesis
    unfolding cumulation_for_ss_def dec cm
    using pos p ps
    by (simp add: scal_mat_NaN mat_vec_NaN vec_add_NaN scal_vec_def)
qed

text \<open>
  C7, as stated (a covariance matrix that is not positive definite makes the update of
  \<open>path_ss\<close> raise, and no NaN reaches \<open>path_ss\<close>), does not hold: for the matrix
  \<open>[[-1]]\<close>, with eigenvalue \<open>-1\<close> and eigenvector \<open>[1]\<close>, nothing is raised; the square
  root of the eigenvalue is NaN, and so are the matrix returned by
  \<^verbatim>\<open>modify_eigen_decomposition\<close> and the new \<open>path_ss\<close>.
\<close>

theorem cumulation_for_ss_negative_eigenvalue:
  "modify_eigen_decomposition (\<lambda>M. Inr ([Fin (- 1)], [[Fin 1]])) [[Fin (- 1)]] = Inr [[NaN]]
   \<and> cumulation_for_ss (\<lambda>M. Inr ([Fin (- 1)], [[Fin 1]])) [Fin 0] (Fin (1/2)) (Fin 1)
        [[Fin (- 1)]] [Fin 1]
     = Inr [NaN]"
  by (simp add: cumulation_for_ss_def modify_eigen_decomposition_def linalg_inv_def
      diagonal_of_def np_diag_def mat_mul_def transpose_mat_def ncols_def dot_def np_sum_def
      vec_mul_def vec_add_def scal_vec_def scal_mat_def mat_vec_def)

text \<open>
  C7, amended: the update of \<open>path_ss\<close> has no test for positive definiteness. It raises
  when \<open>np.linalg.eigh\<close> raises, and it raises LinAlgError, from \<open>np.linalg.inv\<close>, when an
  eigenvalue is exactly zero; when no eigenvalue is zero it raises nothing and returns a
  \<open>path_ss\<close>, and when one of them is negative every entry of that \<open>path_ss\<close> is NaN.
\<close>

theorem cumulation_for_ss_raises_on_zero_eigenvalue_only:
  "(eigh C = Inl e \<longrightarrow> cumulation_for_ss eigh path_ss c_sigma mu_w C parent = Inl e)
   \<and> (eigh C = Inr (eigen_values, eigen_vectors) \<and> list_ex (\<lambda>x. x = Fin 0) eigen_values \<longrightarrow>
        cumulation_for_ss eigh path_ss c_sigma mu_w C parent = Inl LinAlgError)
   \<and> (eigh C = Inr (eigen_values, eigen_vectors) \<and> \<not> list_ex (\<lambda>x. x = Fin 0) eigen_values \<longrightarrow>
        \<not> isl (cumulation_for_ss eigh path_ss c_sigma mu_w C parent))
   \<and> (eigh C = Inr (eigen_values, eigen_vectors) \<and> \<not> list_ex (\<lambda>x. x = Fin 0) eigen_values
        \<and> k < length eigen_values \<and> eigen_values ! k = Fin a \<and> a < 0
        \<and> length eigen_vectors = length eigen_values
        \<and> list_all (\<lambda>row. length row = length eigen_values) eigen_vectors
        \<and> length parent = length eigen_values \<and> length path_ss = length eigen_values \<longrightarrow>
        cumulation_for_ss eigh path_ss c_sigma mu_w C parent
          = Inr (replicate (length eigen_values) NaN))"
proof (intro conjI impI)
  assume "eigh C = Inl e"
  then show "cumulation_for_ss eigh path_ss c_sigma mu_w C parent = Inl e"
    by (simp add: cumulation_for_ss_def modify_eigen_decomposition_def)
next
  assume "eigh C = Inr (eigen_values, eigen_vectors) \<and> list_ex (\<lambda>x. x = Fin 0) eigen_values"
  then show "cumulation_for_ss eigh path_ss c_sigma mu_w C parent = Inl LinAlgError"
    by (simp add: cumulation_for_ss_def modify_eigen_decomposition_def linalg_inv_def
        diagonal_of_sqrt_np_diag list_ex_sqrt_zero)
next
  assume "eigh C = Inr (eigen_values, eigen_vectors) \<and> \<not> list_ex (\<lambda>x. x = Fin 0) eigen_values"
  then show "\<not> isl (cumulation_for_ss eigh path_ss c_sigma mu_w C parent)"
    by (simp add: cumulation_for_ss_def modify_eigen_decomposition_def linalg_inv_def
        diagonal_of_sqrt_np_diag list_ex_sqrt_zero)
next
  assume h: "eigh C = Inr (eigen_values, eigen_vectors) \<and> \<not> list_ex (\<lambda>x. x = Fin 0) eigen_values
        \<and> k < length eigen_values \<and> eigen_values ! k = Fin a \<and> a < 0
        \<and> length eigen_vectors = length eigen_values
        \<and> list_all (\<lambda>row. length row = length eigen_values) eigen_vectors
        \<and> length parent = length eigen_values \<and> length path_ss = length eigen_values"
  then have rows: "\<And>row. row \<in> set eigen_vectors \<Longrightarrow> length row = length eigen_values"
    by (simp add: list_all_iff)
  from h have e: "eigh C = Inr (eigen_values, eigen_vectors)"
    and nz: "\<not> list_ex (\<lambda>x. x = Fin 0) eigen_values"
    and k: "k < length eigen_values" and ev: "eigen_values ! k = Fin a" and a: "a < 0"
    and lv: "length eigen_vectors = length eigen_values"
    and lp: "length parent = length eigen_values"
    and lps: "length path_ss = length eigen_values"
    by simp_all
  show "cumulation_for_ss eigh path_ss c_sigma mu_w C parent
          = Inr (replicate (length eigen_values) NaN)"
    by (rule cumulation_for_ss_NaN[where eigh = eigh and C = C, OF e nz k ev a lv rows lp lps])
qed

theorem cumulation_for_ss_raises_on_zero_eigenvalue_only_witness:
  "cumulation_for_ss (\<lambda>M. Inr ([Fin 0, Fin 2], [[Fin 1, Fin 0], [Fin 0, Fin 1]]))
      [Fin 0, Fin 0] (Fin (1/2)) (Fin 1) [[Fin 0, Fin 0], [Fin 0, Fin 2]] [Fin 1, Fin 1]
     = Inl LinAlgError
   \<and> cumulation_for_ss (\<lambda>M. Inr ([Fin (- 1), Fin 2], [[Fin 1, Fin 0], [Fin 0, Fin 1]]))
      [Fin 0, Fin 0] (Fin (1/2)) (Fin 1) [[Fin (- 1), Fin 0], [Fin 0, Fin 2]] [Fin 1, Fin 1]
     = Inr [NaN, NaN]"
  using cumulation_for_ss_raises_on_zero_eigenvalue_only
      [where eigh = "\<lambda>M. Inr ([Fin 0, Fin 2], [[Fin 1, Fin 0], [Fin 0, Fin 1]])"
         and C = "[[Fin 0, Fin 0], [Fin 0, Fin 2]]" and path_ss = "[Fin 0, Fin 0]"
         and c_sigma = "Fin (1/2)" and mu_w = "Fin 1" and parent = "[Fin 1, Fin 1]"
         and eigen_values = "[Fin 0, Fin 2]" and eigen_vectors = "[[Fin 1, Fin 0], [Fin 0, Fin 1]]"]
    cumulation_for_ss_raises_on_zero_eigenvalue_only
      [where eigh = "\<lambda>M. Inr ([Fin (- 1), Fin 2], [[Fin 1, Fin 0], [Fin 0, Fin 1]])"
         and C = "[[Fin (- 1), Fin 0], [Fin 0, Fin 2]]" and path_ss = "[Fin 0, Fin 0]"
         and c_sigma = "Fin (1/2)" and mu_w = "Fin 1" and parent = "[Fin 1, Fin 1]"
         and eigen_values = "[Fin (- 1), Fin 2]" and eigen_vectors = "[[Fin 1, Fin 0], [Fin 0, Fin 1]]"
         and k = 0 and a = "- 1"]
  by (simp add: numeral_2_eq_2)

end
